theory Spec2Isabelle
  imports Complex_Main
begin

section \<open>JavaScript strings and numbers\<close>

text \<open>
  A JavaScript string is a sequence of UTF-16 code units. The labels and prompts of the
  program contain CJK characters, so a string is modelled as the list of its code units
  (numbers below 65536), and every character constant of the source is written as its
  code unit.
\<close>

type_synonym jstring = "nat list"

definition ascii :: "string \<Rightarrow> jstring" where
  "ascii s = map of_char s"

text \<open>
  The characters matched by the regular expression class \<open>\s\<close>; \<open>String.prototype.trim\<close>
  strips the same set (white space and line terminators).
\<close>

definition isWhiteSpace :: "nat \<Rightarrow> bool" where
  "isWhiteSpace c =
     (c = 9 \<or> c = 10 \<or> c = 11 \<or> c = 12 \<or> c = 13 \<or> c = 32 \<or> c = 160 \<or> c = 5760
      \<or> (8192 \<le> c \<and> c \<le> 8202) \<or> c = 8232 \<or> c = 8233 \<or> c = 8239 \<or> c = 8287
      \<or> c = 12288 \<or> c = 65279)"

definition trim :: "jstring \<Rightarrow> jstring" where
  "trim s = rev (dropWhile isWhiteSpace (rev (dropWhile isWhiteSpace s)))"

text \<open>The class \<open>\d\<close> (without the unicode flag): the ten ASCII digits.\<close>

definition isDigit :: "nat \<Rightarrow> bool" where
  "isDigit c = (48 \<le> c \<and> c \<le> 57)"

text \<open>
  \<open>Number(s)\<close> for a string of decimal digits. The model is exact; a double is exact
  below \<open>2^53\<close>, and every larger value is far outside the years \<open>Date.UTC\<close> accepts.
\<close>

definition digitsValue :: "jstring \<Rightarrow> nat" where
  "digitsValue ds = foldl (\<lambda>acc c. 10 * acc + (c - 48)) 0 ds"

text \<open>
  A regular expression without the sticky flag is tried at every start index from the
  left, the end of the string included; the first index where it matches wins.
\<close>

fun firstMatch :: "(jstring \<Rightarrow> 'a option) \<Rightarrow> jstring \<Rightarrow> 'a option" where
  "firstMatch m [] = m []"
| "firstMatch m (c # cs) = (case m (c # cs) of Some r \<Rightarrow> Some r | None \<Rightarrow> firstMatch m cs)"

section \<open>Date.UTC\<close>

text \<open>
  \<open>Date.UTC(year, month, 1)\<close> of ECMAScript for integral arguments, in milliseconds.
  A year from 0 to 99 means 1900 plus that year (MakeFullYear), a month outside 0..11
  carries into the year (MakeDay), and a time value beyond 8.64e15 milliseconds from the
  epoch is NaN (TimeClip), modelled as \<open>None\<close>.
\<close>

definition dayFromYear :: "int \<Rightarrow> int" where
  "dayFromYear y =
     365 * (y - 1970) + (y - 1969) div 4 - (y - 1901) div 100 + (y - 1601) div 400"

definition inLeapYear :: "int \<Rightarrow> bool" where
  "inLeapYear y = (y mod 4 = 0 \<and> (y mod 100 \<noteq> 0 \<or> y mod 400 = 0))"

definition dayWithinYear :: "int \<Rightarrow> bool \<Rightarrow> int" where
  "dayWithinYear mn leap =
     (let l = (if leap then 1 else 0) in
      if mn = 0 then 0 else if mn = 1 then 31 else if mn = 2 then 59 + l
      else if mn = 3 then 90 + l else if mn = 4 then 120 + l else if mn = 5 then 151 + l
      else if mn = 6 then 181 + l else if mn = 7 then 212 + l else if mn = 8 then 243 + l
      else if mn = 9 then 273 + l else if mn = 10 then 304 + l else 334 + l)"

definition makeFullYear :: "int \<Rightarrow> int" where
  "makeFullYear y = (if 0 \<le> y \<and> y \<le> 99 then 1900 + y else y)"

definition dateUTC :: "int \<Rightarrow> int \<Rightarrow> int option" where
  "dateUTC year month =
     (let ym = makeFullYear year + month div 12;
          mn = month mod 12;
          day = dayFromYear ym + dayWithinYear mn (inLeapYear ym);
          tv = day * 86400000
      in if \<bar>tv\<bar> \<le> 8640000000000000 then Some tv else None)"

text \<open>
  A timestamp of the chart is a JavaScript number: \<open>Some t\<close> for the integer \<open>t\<close> (seconds),
  \<open>None\<close> for NaN. Division of a \<open>Date.UTC\<close> value by 1000 is exact, since the value is
  a whole number of days.
\<close>

type_synonym timestamp = "int option"

definition secondsOf :: "int option \<Rightarrow> timestamp" where
  "secondsOf ms = map_option (\<lambda>v. v div 1000) ms"

text \<open>\<open>ToIntegerOrInfinity\<close> on a finite number: truncation towards zero.\<close>

definition toInteger :: "real \<Rightarrow> int" where
  "toInteger r = (if 0 \<le> r then \<lfloor>r\<rfloor> else \<lceil>r\<rceil>)"

section \<open>Time-series phase transformer (src/app/page.tsx)\<close>

subsection \<open>Data model\<close>

text \<open>
  A boundary label is \<open>number | string\<close>. Numbers of the payload are finite (they come
  from JSON) and are modelled as reals.
\<close>

datatype label = LNum real | LStr jstring

record Phase =
  start_year :: label
  end_year :: label
  p_open :: real
  p_high :: real
  p_low :: real
  p_close :: real
  p_label :: jstring

datatype AxisKind = subjective | objective

record AxisMeta =
  axis_label :: jstring
  axis_unit :: "jstring option"
  kind :: "AxisKind option"

record AxisRange =
  range_min :: real
  range_max :: real

record ChartPoint =
  time :: timestamp
  point_value :: real
  phase :: Phase

subsection \<open>yearToTimestamp (lines 376 to 409)\<close>

text \<open>
  The six patterns of the function follow, each as a matcher at the start of a text, in
  the order in which the function tries them.
\<close>

text \<open>\<open>(?:19|20)\d{2}\<close> at the start of the given text: the year it spells.\<close>

fun yearAt :: "jstring \<Rightarrow> nat option" where
  "yearAt (a # b # c # d # rest) =
     (if ((a = 49 \<and> b = 57) \<or> (a = 50 \<and> b = 48)) \<and> isDigit c \<and> isDigit d
      then Some (digitsValue [a, b, c, d]) else None)"
| "yearAt _ = None"

text \<open>
  \<open>((?:19|20)\d{2})\s*[Qq]([1-4])\<close> at the start of the given text: the year and the
  quarter digit. The greedy \<open>\s*\<close> never has to give anything back, as \<open>Q\<close> is no white
  space.
\<close>

definition quarterAt :: "jstring \<Rightarrow> (nat \<times> nat) option" where
  "quarterAt s =
     (case yearAt s of
        None \<Rightarrow> None
      | Some y \<Rightarrow>
          (case dropWhile isWhiteSpace (drop 4 s) of
             q # n # rest \<Rightarrow>
               if (q = 81 \<or> q = 113) \<and> 49 \<le> n \<and> n \<le> 52 then Some (y, n - 48) else None
           | _ \<Rightarrow> None))"

text \<open>
  The alternatives that close the localized ordinal pattern:
  U+5B63, U+8D5B U+5B63, U+671F, U+96C6, U+56DE, U+8BDD, U+7AE0, U+5E55, U+9636 U+6BB5,
  U+5C40, U+573A, U+7BC7.
\<close>

fun cnSuffixAt :: "jstring \<Rightarrow> bool" where
  "cnSuffixAt [] = False"
| "cnSuffixAt (c # rest) =
     (c = 23395 \<or> (c = 36187 \<and> (case rest of d # r \<Rightarrow> d = 23395 | [] \<Rightarrow> False))
      \<or> c = 26399 \<or> c = 38598 \<or> c = 22238 \<or> c = 35805 \<or> c = 31456 \<or> c = 24149
      \<or> (c = 38454 \<and> (case rest of d # r \<Rightarrow> d = 27573 | [] \<Rightarrow> False))
      \<or> c = 23616 \<or> c = 22330 \<or> c = 31687)"

text \<open>
  \<open>\s*(\d+)\s*(?:...)\<close> at the start of the given text: the number spelled by the captured
  digits. Digits, white space and the closing characters are disjoint classes, so the
  greedy match is the only candidate.
\<close>

definition cnBodyAt :: "jstring \<Rightarrow> nat option" where
  "cnBodyAt s =
     (let r1 = dropWhile isWhiteSpace s;
          ds = takeWhile isDigit r1;
          r2 = dropWhile isWhiteSpace (dropWhile isDigit r1)
      in if ds \<noteq> [] \<and> cnSuffixAt r2 then Some (digitsValue ds) else None)"

text \<open>
  The whole pattern, with its optional leading U+7B2C: first with the character consumed,
  then (backtracking) without.
\<close>

definition cnOrdinalAt :: "jstring \<Rightarrow> nat option" where
  "cnOrdinalAt s =
     (case s of
        c # rest \<Rightarrow>
          if c = 31532
          then (case cnBodyAt rest of Some v \<Rightarrow> Some v | None \<Rightarrow> cnBodyAt s)
          else cnBodyAt s
      | [] \<Rightarrow> cnBodyAt s)"

text \<open>
  A literal word under the \<open>i\<close> flag (no unicode flag): a pattern letter matches itself and
  its ASCII upper case only, any other pattern character only itself. The pattern is
  given in lower case; the result is the text after the word.
\<close>

definition ciEq :: "nat \<Rightarrow> nat \<Rightarrow> bool" where
  "ciEq p c = (c = p \<or> (97 \<le> p \<and> p \<le> 122 \<and> c + 32 = p))"

fun wordAt :: "jstring \<Rightarrow> jstring \<Rightarrow> jstring option" where
  "wordAt [] s = Some s"
| "wordAt (p # ps) [] = None"
| "wordAt (p # ps) (c # cs) = (if ciEq p c then wordAt ps cs else None)"

text \<open>
  \<open>\s*0*(\d+)\<close> after the word. The greedy \<open>0*\<close> takes every zero; when no digit follows
  them it gives the last zero back to \<open>\d+\<close>.
\<close>

definition enTailAt :: "jstring \<Rightarrow> nat option" where
  "enTailAt s =
     (let r1 = dropWhile isWhiteSpace s;
          zeros = takeWhile (\<lambda>c. c = 48) r1;
          ds = takeWhile isDigit (dropWhile (\<lambda>c. c = 48) r1)
      in if ds \<noteq> [] then Some (digitsValue ds)
         else if zeros \<noteq> [] then Some (digitsValue [48])
         else None)"

fun enWordsAt :: "jstring list \<Rightarrow> jstring \<Rightarrow> nat option" where
  "enWordsAt [] s = None"
| "enWordsAt (w # ws) s =
     (case wordAt w s of
        None \<Rightarrow> enWordsAt ws s
      | Some rest \<Rightarrow> (case enTailAt rest of Some v \<Rightarrow> Some v | None \<Rightarrow> enWordsAt ws s))"

definition enOrdinalAt :: "jstring \<Rightarrow> nat option" where
  "enOrdinalAt s =
     enWordsAt (map ascii [''season'', ''episode'', ''ep'', ''stage'', ''phase'', ''round'',
                           ''match'', ''chapter'', ''part'']) s"

text \<open>\<open>(\d+)\<close> at the start of the given text.\<close>

definition numericAt :: "jstring \<Rightarrow> nat option" where
  "numericAt s = (let ds = takeWhile isDigit s in if ds \<noteq> [] then Some (digitsValue ds) else None)"

definition yearToTimestamp :: "label \<Rightarrow> nat \<Rightarrow> timestamp" where
  "yearToTimestamp lbl index =
     (case lbl of
        LNum n \<Rightarrow> secondsOf (dateUTC (toInteger n) 0)
      | LStr s \<Rightarrow>
          (let raw = trim s in
           case firstMatch quarterAt raw of
             Some (year, quarter) \<Rightarrow> secondsOf (dateUTC (int year) ((int quarter - 1) * 3))
           | None \<Rightarrow>
           (case firstMatch yearAt raw of
              Some year \<Rightarrow> secondsOf (dateUTC (int year) 0)
            | None \<Rightarrow>
            (case firstMatch cnOrdinalAt raw of
               Some v \<Rightarrow> secondsOf (dateUTC (2000 + int v) 0)
             | None \<Rightarrow>
             (case firstMatch enOrdinalAt raw of
                Some v \<Rightarrow> secondsOf (dateUTC (2100 + int v) 0)
              | None \<Rightarrow>
              (case firstMatch numericAt raw of
                 Some v \<Rightarrow> secondsOf (dateUTC (2200 + int v) 0)
               | None \<Rightarrow> Some (0 + int index * 24 * 60 * 60)))))))"

subsection \<open>Clamping and ranges (lines 426 to 479, and Home, lines 923 to 990)\<close>

definition clampScore :: "real \<Rightarrow> real" where
  "clampScore v = min (max v 0) 100"

definition normalizePhases :: "Phase list \<Rightarrow> bool \<Rightarrow> Phase list" where
  "normalizePhases phases clampToHundred =
     (if phases = [] then phases
      else if \<not> clampToHundred then map (\<lambda>ph. ph) phases
      else map (\<lambda>ph. ph\<lparr>p_open := clampScore (p_open ph), p_high := clampScore (p_high ph),
                          p_low := clampScore (p_low ph), p_close := clampScore (p_close ph)\<rparr>)
             phases)"

text \<open>
  The values are finite numbers, so the test \<open>Number.isFinite\<close> of the minimum and the
  maximum fails only for an empty list of values (whose minimum is Infinity).
  \<open>x || 1\<close> is 1 when \<open>x\<close> is zero.
\<close>

definition computePhaseRange :: "Phase list \<Rightarrow> AxisMeta option \<Rightarrow> AxisRange option" where
  "computePhaseRange phases axis =
     (if phases = [] then None
      else if (case axis of None \<Rightarrow> None | Some a \<Rightarrow> kind a) = Some subjective
      then Some \<lparr>range_min = 0, range_max = 100\<rparr>
      else
        (case concat (map (\<lambda>ph. [p_open ph, p_close ph, p_low ph, p_high ph]) phases) of
           [] \<Rightarrow> None
         | v # vs \<Rightarrow>
             (let mn = fold min vs v; mx = fold max vs v in
              if mn = mx
              then (let padding = (if \<bar>mn\<bar> * 0.05 = 0 then 1 else \<bar>mn\<bar> * 0.05)
                    in Some \<lparr>range_min = mn - padding, range_max = mx + padding\<rparr>)
              else (let gap = (if (mx - mn) * 0.08 = 0 then 1 else (mx - mn) * 0.08)
                    in Some \<lparr>range_min = mn - gap, range_max = mx + gap\<rparr>))))"

text \<open>
  The page (\<open>Home\<close>) decides the clamping of each series from its axis descriptor:
  \<open>shouldClampPrimary\<close> and \<open>shouldClampSecondary\<close> are the same expression of
  \<open>chart_notes.primary_axis\<close> and \<open>chart_notes.secondary_axis\<close>, absent when the payload
  has no \<open>chart_notes\<close>.
\<close>

definition shouldClamp :: "AxisMeta option \<Rightarrow> bool" where
  "shouldClamp axisMeta =
     (if (case axisMeta of None \<Rightarrow> None | Some a \<Rightarrow> kind a) = Some objective then False else True)"

definition displayPhases :: "Phase list \<Rightarrow> AxisMeta option \<Rightarrow> Phase list" where
  "displayPhases phases axisMeta = normalizePhases phases (shouldClamp axisMeta)"

definition primaryRange :: "Phase list \<Rightarrow> AxisMeta option \<Rightarrow> AxisRange option" where
  "primaryRange phases axisMeta = computePhaseRange (displayPhases phases axisMeta) axisMeta"

subsection \<open>buildAreaData (lines 515 to 574)\<close>

text \<open>
  The closure \<open>pushPoint\<close> updates the local \<open>points\<close> and \<open>lastTime\<close>; they are the
  builder state. \<open>a <= b\<close> on numbers is false as soon as one side is NaN. The optional
  \<open>labelMap\<close> side table takes no part in the points and is left out.
\<close>

record builder =
  points :: "ChartPoint list"
  lastTime :: timestamp

definition jsLe :: "timestamp \<Rightarrow> timestamp \<Rightarrow> bool" where
  "jsLe a b = (case a of None \<Rightarrow> False | Some x \<Rightarrow> (case b of None \<Rightarrow> False | Some y \<Rightarrow> x \<le> y))"

definition pushPoint :: "timestamp \<Rightarrow> real \<Rightarrow> Phase \<Rightarrow> builder \<Rightarrow> builder" where
  "pushPoint t v ph st =
     (let t' = (if jsLe t (lastTime st) then map_option (\<lambda>l. l + 24 * 60 * 60) (lastTime st) else t)
      in \<lparr>points = points st @ [\<lparr>time = t', point_value = v, phase = ph\<rparr>], lastTime = t'\<rparr>)"

definition shouldBridge :: "Phase \<Rightarrow> Phase \<Rightarrow> bool" where
  "shouldBridge prev ph = (end_year prev \<noteq> start_year ph \<or> p_close prev \<noteq> p_open ph)"

text \<open>The body of the \<open>forEach\<close> callback, for the phase at \<open>index\<close>.\<close>

definition phaseStep :: "Phase list \<Rightarrow> builder \<Rightarrow> nat \<Rightarrow> builder" where
  "phaseStep phases st index =
     (let ph = phases ! index;
          startTime = yearToTimestamp (start_year ph) index;
          endTime = yearToTimestamp (end_year ph) (index + 1);
          boundedOpen = clampScore (p_open ph);
          boundedClose = clampScore (p_close ph);
          st1 = (if index = 0 then pushPoint startTime boundedOpen ph st
                 else if shouldBridge (phases ! (index - 1)) ph
                      then pushPoint startTime boundedOpen ph st
                      else st)
      in pushPoint endTime boundedClose ph st1)"

definition buildAreaData :: "Phase list \<Rightarrow> ChartPoint list" where
  "buildAreaData phases =
     (if phases = [] then []
      else points (foldl (phaseStep phases) \<lparr>points = [], lastTime = Some 0\<rparr> [0..<length phases]))"

section \<open>Reference ingestion (the generation route, src/unnamed/part_000)\<close>

subsection \<open>String helpers\<close>

definition startsWith :: "jstring \<Rightarrow> jstring \<Rightarrow> bool" where
  "startsWith w s = (take (length w) s = w)"

definition endsWith :: "jstring \<Rightarrow> jstring \<Rightarrow> bool" where
  "endsWith w s = startsWith (rev w) (rev s)"

fun includesText :: "jstring \<Rightarrow> jstring \<Rightarrow> bool" where
  "includesText w [] = (w = [])"
| "includesText w (c # cs) = (startsWith w (c # cs) \<or> includesText w cs)"

text \<open>
  \<open>toLowerCase\<close>, on the ASCII letters. No other character lowers to one of the letters
  or to the dot of the file extensions compared below.
\<close>

definition toLowerCase :: "jstring \<Rightarrow> jstring" where
  "toLowerCase s = map (\<lambda>c. if 65 \<le> c \<and> c \<le> 90 then c + 32 else c) s"

text \<open>\<open>replace(/\s+/g, " ")\<close>; the flag says that the previous character was white space.\<close>

fun collapseFrom :: "bool \<Rightarrow> jstring \<Rightarrow> jstring" where
  "collapseFrom prev [] = []"
| "collapseFrom prev (c # cs) =
     (if isWhiteSpace c then (if prev then collapseFrom True cs else 32 # collapseFrom True cs)
      else c # collapseFrom False cs)"

definition normalizeWhitespace :: "jstring \<Rightarrow> jstring" where
  "normalizeWhitespace v = trim (collapseFrom False v)"

text \<open>The decimal digits of a number, as a template string prints a status code.\<close>

fun decimal :: "nat \<Rightarrow> jstring" where
  "decimal n = (if n < 10 then [48 + n] else decimal (n div 10) @ [48 + n mod 10])"

subsection \<open>Data model\<close>

record UploadedDocument =
  doc_name :: jstring
  doc_type :: "jstring option"
  doc_content :: jstring

datatype ReferenceType = TextRef | UrlRef | FileRef

record ReferenceEntry =
  ref_type :: ReferenceType
  content :: jstring
  source :: jstring

datatype ReferenceStatus = StatusEmpty | StatusSuccess | StatusPartial | StatusFailed

record ReferenceResult =
  status :: ReferenceStatus
  references :: "ReferenceEntry list"
  errors :: "jstring list"

text \<open>
  What a \<open>catch\<close> of the route can receive: a \<open>ReferenceIngestionError\<close> with its message,
  or any other exception.
\<close>

datatype IngestFailure = ReferenceIngestionError jstring | OtherException

text \<open>A parsed JSON value, as \<open>JSON.parse\<close> returns it.\<close>

datatype json =
  JNull | JBool bool | JNum real | JStr jstring | JArr "json list" | JObj "(jstring \<times> json) list"

text \<open>
  The collaborators outside the repository, as the route sees them. \<open>None\<close> stands for a
  thrown exception (or a rejected promise).
  \<^item> \<open>bufferFrom\<close>: \<open>Buffer.from(s, "base64")\<close>, the decoded bytes;
  \<^item> \<open>pdfGetText\<close>, \<open>mammothRawText\<close>: the text of the two document parsers (an absent
    text counts as the empty string, as \<open>?? ""\<close> makes it); \<open>bufferToString\<close>: UTF-8 decoding;
  \<^item> \<open>fetchUrl\<close>: the HTTP GET of a link;
  \<^item> \<open>htmlMainRegion\<close>: node-html-parser on a page, up to the text of the selected region;
  \<^item> \<open>jsonParse\<close>: \<open>JSON.parse\<close>; \<open>jsonRepair\<close>: \<open>jsonrepair\<close>;
  \<^item> \<open>callGenerator\<close>: the chat completion request of the given attempt with the given
    user prompt.
\<close>

datatype FetchResult = FetchThrows | Response bool nat "jstring option"

datatype HtmlOutcome = HtmlThrows | NoRegion | RegionText jstring

datatype GenResponse = GenThrows | GenNotOk jstring | GenOk "jstring option"

record World =
  bufferFrom :: "jstring \<Rightarrow> nat list"
  pdfGetText :: "nat list \<Rightarrow> jstring option"
  mammothRawText :: "nat list \<Rightarrow> jstring option"
  bufferToString :: "nat list \<Rightarrow> jstring"
  fetchUrl :: "jstring \<Rightarrow> FetchResult"
  htmlMainRegion :: "jstring \<Rightarrow> HtmlOutcome"
  jsonParse :: "jstring \<Rightarrow> json option"
  jsonRepair :: "jstring \<Rightarrow> jstring option"
  callGenerator :: "nat \<Rightarrow> jstring \<Rightarrow> GenResponse"

subsection \<open>Constants\<close>

definition MAX_SECTION_CHARS :: nat where "MAX_SECTION_CHARS = 4000"
definition MAX_REFERENCE_CHARS :: nat where "MAX_REFERENCE_CHARS = 6000"
definition MAX_UPLOAD_BYTES :: nat where "MAX_UPLOAD_BYTES = 2 * 1024 * 1024"

text \<open>The messages of the ingestion errors, up to the name they end with.\<close>

definition MSG_FILE_EMPTY :: jstring where
  "MSG_FILE_EMPTY = [25991, 20214, 20869, 23481, 20026, 31354, 65306]"
definition MSG_FILE_TOO_BIG :: jstring where
  "MSG_FILE_TOO_BIG = [25991, 20214, 36229, 36807, 32, 50, 77, 66, 32, 38480, 21046, 65306]"
definition MSG_FILE_UNPARSEABLE :: jstring where
  "MSG_FILE_UNPARSEABLE = [26080, 27861, 35299, 26512, 25991, 20214, 65306]"
definition MSG_FILE_UNREADABLE :: jstring where
  "MSG_FILE_UNREADABLE = [26080, 27861, 35835, 21462, 25991, 20214, 65306]"
definition MSG_LINK_STATUS :: jstring where
  "MSG_LINK_STATUS = [38142, 25509, 21709, 24212, 32]"
definition MSG_LINK_EMPTY :: jstring where
  "MSG_LINK_EMPTY = [38142, 25509, 20869, 23481, 20026, 31354, 25110, 34987, 38480, 21046, 65306]"
definition MSG_LINK_UNREACHABLE :: jstring where
  "MSG_LINK_UNREACHABLE = [26080, 27861, 35775, 38382, 38142, 25509, 65306]"
definition MSG_NOTHING_USABLE :: jstring where
  "MSG_NOTHING_USABLE =
     [25552, 20379, 30340, 36164, 26009, 20026, 31354, 25110, 26080, 27861, 35299, 26512, 12290]"

subsection \<open>Text helpers of the route\<close>

text \<open>\<open>truncateText\<close>: the ellipsis is U+2026.\<close>

definition truncateText :: "jstring \<Rightarrow> nat \<Rightarrow> jstring" where
  "truncateText v limit =
     (if v = [] then [] else if length v > limit then take limit v @ [8230] else v)"

definition normalizeJsonText :: "jstring \<Rightarrow> jstring" where
  "normalizeJsonText v =
     trim (filter (\<lambda>c. c \<noteq> 65279)
            (map (\<lambda>c. if c = 8216 \<or> c = 8217 then 39 else c)
               (map (\<lambda>c. if c = 8220 \<or> c = 8221 then 34 else c) v)))"

definition decodeDocumentBuffer :: "World \<Rightarrow> jstring \<Rightarrow> nat list" where
  "decodeDocumentBuffer w input =
     (let base64 = (if 44 \<in> set input then rev (takeWhile (\<lambda>c. c \<noteq> 44) (rev input)) else input)
      in bufferFrom w base64)"

text \<open>
  A global \<open>replace\<close> with a pattern that matches no empty text: \<open>m\<close> gives the text left
  after a match at the start. The guard states that a match consumes something.
\<close>

function replaceAll :: "(jstring \<Rightarrow> jstring option) \<Rightarrow> jstring \<Rightarrow> jstring \<Rightarrow> jstring" where
  "replaceAll m rep [] = []"
| "replaceAll m rep (c # cs) =
     (case m (c # cs) of
        None \<Rightarrow> c # replaceAll m rep cs
      | Some rest \<Rightarrow>
          if length rest \<le> length cs then rep @ replaceAll m rep rest
          else c # replaceAll m rep cs)"
  by pat_completeness auto
termination
  by (relation "measure (\<lambda>(m, rep, s). length s)") auto

text \<open>The text after the first occurrence of a character.\<close>

definition afterChar :: "nat \<Rightarrow> jstring \<Rightarrow> jstring option" where
  "afterChar c s = (case dropWhile (\<lambda>x. x \<noteq> c) s of [] \<Rightarrow> None | x # rest \<Rightarrow> Some rest)"

text \<open>
  \<open><tag[^>]*>[\s\S]*?<\/tag>\<close> under the \<open>i\<close> flag, at the start of the given text:
  the greedy \<open>[^>]*\<close> stops before the first \<open>>\<close>, the lazy body at the first closing tag.
\<close>

definition blockAt :: "string \<Rightarrow> jstring \<Rightarrow> jstring option" where
  "blockAt tag s =
     (case wordAt (ascii (''<'' @ tag)) s of
        None \<Rightarrow> None
      | Some r \<Rightarrow>
          (case afterChar 62 r of
             None \<Rightarrow> None
           | Some body \<Rightarrow> firstMatch (wordAt (ascii (''</'' @ tag @ ''>''))) body))"

text \<open>\<open><[^>]+>\<close> at the start of the given text.\<close>

definition tagAt :: "jstring \<Rightarrow> jstring option" where
  "tagAt s =
     (case s of
        [] \<Rightarrow> None
      | c # r \<Rightarrow>
          if c \<noteq> 60 then None
          else (case r of [] \<Rightarrow> None | x # r' \<Rightarrow> if x = 62 then None else afterChar 62 r))"

definition extractPlainText :: "jstring \<Rightarrow> jstring" where
  "extractPlainText html =
     trim (collapseFrom False
       (replaceAll tagAt [32]
         (replaceAll (blockAt ''style'') [32]
           (replaceAll (blockAt ''script'') [32] html))))"

definition extractMainTextFromHtml :: "World \<Rightarrow> jstring \<Rightarrow> jstring" where
  "extractMainTextFromHtml w html =
     (case htmlMainRegion w html of
        HtmlThrows \<Rightarrow> extractPlainText html
      | NoRegion \<Rightarrow> extractPlainText html
      | RegionText t \<Rightarrow>
          (let txt = trim (collapseFrom False t)
           in if txt \<noteq> [] then txt else extractPlainText html))"

definition isPdf :: "jstring \<Rightarrow> jstring \<Rightarrow> bool" where
  "isPdf name type = (includesText (ascii ''pdf'') type \<or> endsWith (ascii ''.pdf'') (toLowerCase name))"

definition isDocx :: "jstring \<Rightarrow> jstring \<Rightarrow> bool" where
  "isDocx name type =
     (let lower = toLowerCase name
      in includesText (ascii ''word'') type \<or> endsWith (ascii ''.docx'') lower
         \<or> endsWith (ascii ''.doc'') lower \<or> endsWith (ascii ''.rtf'') lower)"

subsection \<open>The two extractors (lines 119 to 183)\<close>

text \<open>
  The inner \<open>try\<close> of \<open>extractTextFromDocument\<close>: the raw text of the format, or the
  parser's exception.
\<close>

definition rawDocumentText :: "World \<Rightarrow> UploadedDocument \<Rightarrow> nat list \<Rightarrow> jstring option" where
  "rawDocumentText w doc buffer =
     (let type = (case doc_type doc of None \<Rightarrow> [] | Some t \<Rightarrow> t)
      in if isPdf (doc_name doc) type then pdfGetText w buffer
         else if isDocx (doc_name doc) type then mammothRawText w buffer
         else Some (bufferToString w buffer))"

definition extractTextFromDocument :: "World \<Rightarrow> UploadedDocument \<Rightarrow> IngestFailure + jstring" where
  "extractTextFromDocument w doc =
     (let buffer = decodeDocumentBuffer w (doc_content doc);
          size = length buffer
      in if size = 0 then Inl (ReferenceIngestionError (MSG_FILE_EMPTY @ doc_name doc))
         else if size > MAX_UPLOAD_BYTES
         then Inl (ReferenceIngestionError (MSG_FILE_TOO_BIG @ doc_name doc))
         else
           (case rawDocumentText w doc buffer of
              None \<Rightarrow> Inl (ReferenceIngestionError (MSG_FILE_UNPARSEABLE @ doc_name doc))
            | Some raw \<Rightarrow>
                (let normalized = normalizeWhitespace raw
                 in if normalized = []
                    then Inl (ReferenceIngestionError (MSG_FILE_EMPTY @ doc_name doc))
                    else Inr normalized)))"

definition fetchLinkContent :: "World \<Rightarrow> jstring \<Rightarrow> IngestFailure + jstring" where
  "fetchLinkContent w url =
     (case fetchUrl w url of
        FetchThrows \<Rightarrow> Inl (ReferenceIngestionError (MSG_LINK_UNREACHABLE @ url))
      | Response ok code body \<Rightarrow>
          (case body of
             None \<Rightarrow> Inl (ReferenceIngestionError (MSG_LINK_UNREACHABLE @ url))
           | Some html \<Rightarrow>
               if \<not> ok
               then Inl (ReferenceIngestionError (MSG_LINK_STATUS @ decimal code @ [65306] @ url))
               else (let txt = extractMainTextFromHtml w html
                     in if txt = [] then Inl (ReferenceIngestionError (MSG_LINK_EMPTY @ url))
                        else Inr txt)))"

subsection \<open>ingestReferences (lines 195 to 273)\<close>

text \<open>The locals \<open>references\<close>, \<open>partialErrors\<close> and \<open>hadInput\<close> of the aggregator.\<close>

record Ingestion =
  refs :: "ReferenceEntry list"
  partialErrors :: "jstring list"
  hadInput :: bool

definition pushReference :: "ReferenceEntry \<Rightarrow> Ingestion \<Rightarrow> Ingestion" where
  "pushReference entry st =
     st\<lparr>refs := refs st @ [entry\<lparr>content := truncateText (content entry) MAX_REFERENCE_CHARS\<rparr>]\<rparr>"

definition textStep :: "jstring option \<Rightarrow> Ingestion \<Rightarrow> Ingestion" where
  "textStep supplementalText st =
     (case supplementalText of
        None \<Rightarrow> st
      | Some t \<Rightarrow>
          (let textBlock = trim t
           in if textBlock \<noteq> []
              then pushReference \<lparr>ref_type = TextRef, content = textBlock, source = ascii ''user_input''\<rparr>
                     (st\<lparr>hadInput := True\<rparr>)
              else st))"

definition documentStep :: "World \<Rightarrow> Ingestion \<Rightarrow> UploadedDocument \<Rightarrow> Ingestion" where
  "documentStep w st doc =
     (let st1 = st\<lparr>hadInput := True\<rparr>
      in case extractTextFromDocument w doc of
           Inr txt \<Rightarrow> pushReference \<lparr>ref_type = FileRef, content = txt, source = doc_name doc\<rparr> st1
         | Inl (ReferenceIngestionError msg) \<Rightarrow> st1\<lparr>partialErrors := partialErrors st1 @ [msg]\<rparr>
         | Inl OtherException \<Rightarrow>
             st1\<lparr>partialErrors := partialErrors st1 @ [MSG_FILE_UNREADABLE @ doc_name doc]\<rparr>)"

definition linkStep :: "World \<Rightarrow> Ingestion \<Rightarrow> jstring \<Rightarrow> Ingestion" where
  "linkStep w st link =
     (let st1 = st\<lparr>hadInput := True\<rparr>
      in case fetchLinkContent w link of
           Inr txt \<Rightarrow> pushReference \<lparr>ref_type = UrlRef, content = txt, source = link\<rparr> st1
         | Inl (ReferenceIngestionError msg) \<Rightarrow> st1\<lparr>partialErrors := partialErrors st1 @ [msg]\<rparr>
         | Inl OtherException \<Rightarrow>
             st1\<lparr>partialErrors := partialErrors st1 @ [MSG_LINK_UNREACHABLE @ link]\<rparr>)"

definition ingestLoops ::
  "World \<Rightarrow> jstring option \<Rightarrow> jstring list \<Rightarrow> UploadedDocument list \<Rightarrow> Ingestion" where
  "ingestLoops w supplementalText links documents =
     foldl (linkStep w)
       (foldl (documentStep w)
          (textStep supplementalText \<lparr>refs = [], partialErrors = [], hadInput = False\<rparr>)
          documents)
       links"

definition ingestReferences ::
  "World \<Rightarrow> jstring option \<Rightarrow> jstring list \<Rightarrow> UploadedDocument list \<Rightarrow> ReferenceResult" where
  "ingestReferences w supplementalText links documents =
     (let st = ingestLoops w supplementalText links documents
      in if \<not> hadInput st then \<lparr>status = StatusEmpty, references = [], errors = []\<rparr>
         else if refs st = []
         then \<lparr>status = StatusFailed, references = [],
               errors = (if length (partialErrors st) > 0 then partialErrors st
                         else [MSG_NOTHING_USABLE])\<rparr>
         else \<lparr>status = (if length (partialErrors st) > 0 then StatusPartial else StatusSuccess),
               references = refs st, errors = partialErrors st\<rparr>)"

section \<open>Generated payload validator (lines 275 to 296)\<close>

text \<open>
  The four errors \<open>validateGeneratedPayload\<close> throws, in the order of its checks: no JSON
  structure, no \<open>phases\<close> field, a phase count outside 5..10, no \<open>source_digest\<close>.
\<close>

datatype ValidationError = NotAStructure | NoPhases | PhaseCount | NoSourceDigest

text \<open>JavaScript truthiness and \<open>typeof v === "object"\<close> on a parsed JSON value.\<close>

fun truthy :: "json \<Rightarrow> bool" where
  "truthy JNull = False"
| "truthy (JBool b) = b"
| "truthy (JNum n) = (n \<noteq> 0)"
| "truthy (JStr s) = (s \<noteq> [])"
| "truthy (JArr xs) = True"
| "truthy (JObj kvs) = True"

fun typeofObject :: "json \<Rightarrow> bool" where
  "typeofObject JNull = True"
| "typeofObject (JArr xs) = True"
| "typeofObject (JObj kvs) = True"
| "typeofObject _ = False"

text \<open>
  Reading a named property: the members of an object (each key once, as \<open>JSON.parse\<close>
  leaves them); an array has no property of the two names read here.
\<close>

fun property :: "json \<Rightarrow> jstring \<Rightarrow> json option" where
  "property (JObj kvs) k = map_of kvs k"
| "property _ k = None"

definition validateGeneratedPayload :: "json \<Rightarrow> bool \<Rightarrow> ValidationError + unit" where
  "validateGeneratedPayload payload requireSourceDigest =
     (if \<not> truthy payload \<or> \<not> typeofObject payload then Inl NotAStructure
      else
        (case property payload (ascii ''phases'') of
           Some (JArr phases) \<Rightarrow>
             if length phases < 5 \<or> length phases > 10 then Inl PhaseCount
             else if requireSourceDigest then
               (case property payload (ascii ''source_digest'') of
                  Some (JStr digest) \<Rightarrow>
                    if length (trim digest) < 20 then Inl NoSourceDigest else Inr ()
                | _ \<Rightarrow> Inl NoSourceDigest)
             else Inr ()
         | _ \<Rightarrow> Inl NoPhases))"

section \<open>Structured-output extractor (lines 551 to 590)\<close>

definition attemptParse :: "World \<Rightarrow> jstring \<Rightarrow> json" where
  "attemptParse w payload =
     (let normalized = normalizeJsonText payload
      in case jsonParse w normalized of
           Some v \<Rightarrow> v
         | None \<Rightarrow>
             (case jsonRepair w normalized of
                None \<Rightarrow> JNull
              | Some repaired \<Rightarrow> (case jsonParse w repaired of Some v \<Rightarrow> v | None \<Rightarrow> JNull)))"

text \<open>
  The fence pattern, three backquotes, an optional \<open>json\<close>, \<open>\s*\<close>, a lazy body and three
  backquotes again, under the \<open>i\<close> flag: the captured body. \<open>beforeFence\<close> is the lazy
  body, the text before the next three backquotes.
\<close>

fun beforeFence :: "jstring \<Rightarrow> jstring option" where
  "beforeFence [] = None"
| "beforeFence (c # cs) =
     (if startsWith [96, 96, 96] (c # cs) then Some []
      else map_option (\<lambda>b. c # b) (beforeFence cs))"

definition fenceAt :: "jstring \<Rightarrow> jstring option" where
  "fenceAt s =
     (case wordAt [96, 96, 96] s of
        None \<Rightarrow> None
      | Some r \<Rightarrow>
          (let r1 = (case wordAt (ascii ''json'') r of Some x \<Rightarrow> x | None \<Rightarrow> r)
           in beforeFence (dropWhile isWhiteSpace r1)))"

definition indexOf :: "nat \<Rightarrow> jstring \<Rightarrow> nat option" where
  "indexOf c s = (if c \<in> set s then Some (length (takeWhile (\<lambda>x. x \<noteq> c) s)) else None)"

definition lastIndexOf :: "nat \<Rightarrow> jstring \<Rightarrow> nat option" where
  "lastIndexOf c s =
     (if c \<in> set s then Some (length s - 1 - length (takeWhile (\<lambda>x. x \<noteq> c) (rev s))) else None)"

definition slice :: "nat \<Rightarrow> nat \<Rightarrow> jstring \<Rightarrow> jstring" where
  "slice a b s = take (b - a) (drop a s)"

definition extractJsonPayload :: "World \<Rightarrow> jstring \<Rightarrow> json" where
  "extractJsonPayload w content' =
     (let trimmed = normalizeJsonText content';
          direct = attemptParse w trimmed
      in if truthy direct then direct
         else
           (let fenced = (case firstMatch fenceAt trimmed of
                            None \<Rightarrow> JNull
                          | Some body \<Rightarrow> attemptParse w (trim body))
            in if truthy fenced then fenced
               else
                 (case (indexOf 123 trimmed, lastIndexOf 125 trimmed) of
                    (Some firstBrace, Some lastBrace) \<Rightarrow>
                      if lastBrace > firstBrace
                      then (let parsedSlice = attemptParse w (slice firstBrace (lastBrace + 1) trimmed)
                            in if truthy parsedSlice then parsedSlice else JNull)
                      else JNull
                  | _ \<Rightarrow> JNull)))"

section \<open>Generation orchestrator (the attempt loop of POST, lines 592 to 682)\<close>

text \<open>
  The instruction appended to the user prompt on the second attempt: two line feeds and
  the sentence that demands the JSON structure only, without a Markdown code block or
  any explanation.
\<close>

definition JSON_HINT :: jstring where
  "JSON_HINT =
     [10, 10, 35831, 20005, 26684, 25353, 29031, 19978, 36848, 32, 74, 83, 79, 78, 32, 32467,
      26500, 36755, 20986, 65292, 31105, 27490, 20351, 29992, 32, 77, 97, 114, 107, 100, 111,
      119, 110, 32, 20195, 30721, 22359, 25110, 28155, 21152, 20219, 20309, 35299, 37322, 24615,
      25991, 23383, 12290]"

text \<open>
  The responses of the route after ingestion: 502 for an unavailable generator (with the
  upstream text), 502 for output that cannot be parsed after the retry, 502 with a
  validation message, 200 with the payload, and 500 from the outer \<open>catch\<close>.
\<close>

datatype PostResult =
  UpstreamUnavailable jstring | Unparseable | ValidationFailed ValidationError
  | Generated json | GenerationFailed

text \<open>How the \<open>for\<close> loop ends: a \<open>return\<close>, an exception, or its normal end or \<open>break\<close>.\<close>

datatype LoopExit = Returned PostResult | Threw | Finished json

text \<open>
  The loop \<open>for (let attempt = 0; attempt < 2; attempt++)\<close>. \<open>userPromptBase\<close> is
  \<open>USER_PROMPT_TEMPLATE(query, promptContext)\<close>; \<open>parsed\<close> is the variable of that name;
  \<open>sent\<close> collects the user prompts of the requests made, in order.
\<close>

function attemptLoop ::
  "World \<Rightarrow> jstring \<Rightarrow> nat \<Rightarrow> json \<Rightarrow> jstring list \<Rightarrow> LoopExit \<times> jstring list" where
  "attemptLoop w userPromptBase attempt parsed sent =
     (if attempt < 2 then
        (let enforceJsonHint = (attempt = 1);
             userPrompt = (if enforceJsonHint then userPromptBase @ JSON_HINT else userPromptBase);
             sent' = sent @ [userPrompt]
         in case callGenerator w attempt userPrompt of
              GenThrows \<Rightarrow> (Threw, sent')
            | GenNotOk details \<Rightarrow> (Returned (UpstreamUnavailable details), sent')
            | GenOk rawContent \<Rightarrow>
                (case rawContent of
                   None \<Rightarrow> attemptLoop w userPromptBase (attempt + 1) parsed sent'
                 | Some raw \<Rightarrow>
                     if raw = [] then attemptLoop w userPromptBase (attempt + 1) parsed sent'
                     else (let parsed' = extractJsonPayload w raw
                           in if truthy parsed' then (Finished parsed', sent')
                              else attemptLoop w userPromptBase (attempt + 1) parsed' sent')))
      else (Finished parsed, sent))"
  by pat_completeness auto
termination
  by (relation "measure (\<lambda>(w, b, attempt, p, s). 2 - attempt)") auto

declare attemptLoop.simps [simp del]

text \<open>
  The effects of one request that the claims observe: the user prompts sent to the
  generator, and how often the validator ran.
\<close>

record Trace =
  prompts :: "jstring list"
  validations :: nat

text \<open>
  The \<open>try\<close> block of \<open>POST\<close> from the attempt loop on. \<open>requireSourceDigest\<close> is
  \<open>ingestion.references.length > 0\<close>.
\<close>

definition POST_generate :: "World \<Rightarrow> jstring \<Rightarrow> bool \<Rightarrow> PostResult \<times> Trace" where
  "POST_generate w userPromptBase requireSourceDigest =
     (case attemptLoop w userPromptBase 0 JNull [] of
        (Threw, sent) \<Rightarrow> (GenerationFailed, \<lparr>prompts = sent, validations = 0\<rparr>)
      | (Returned r, sent) \<Rightarrow> (r, \<lparr>prompts = sent, validations = 0\<rparr>)
      | (Finished parsed, sent) \<Rightarrow>
          if \<not> truthy parsed then (Unparseable, \<lparr>prompts = sent, validations = 0\<rparr>)
          else (case validateGeneratedPayload parsed requireSourceDigest of
                  Inl e \<Rightarrow> (ValidationFailed e, \<lparr>prompts = sent, validations = 1\<rparr>)
                | Inr u \<Rightarrow> (Generated parsed, \<lparr>prompts = sent, validations = 1\<rparr>)))"

section \<open>Notions used to state the properties\<close>

subsection \<open>Phase transformer\<close>

text \<open>A phase with its four values clamped, and the test that the four lie in 0..100.\<close>

definition clampedPhase :: "Phase \<Rightarrow> Phase" where
  "clampedPhase ph =
     ph\<lparr>p_open := clampScore (p_open ph), p_high := clampScore (p_high ph),
        p_low := clampScore (p_low ph), p_close := clampScore (p_close ph)\<rparr>"

definition inHundred :: "Phase \<Rightarrow> bool" where
  "inHundred ph =
     (0 \<le> p_open ph \<and> p_open ph \<le> 100 \<and> 0 \<le> p_high ph \<and> p_high ph \<le> 100
      \<and> 0 \<le> p_low ph \<and> p_low ph \<le> 100 \<and> 0 \<le> p_close ph \<and> p_close ph \<le> 100)"

text \<open>The kind of an optional axis descriptor (\<open>axis?.kind\<close>).\<close>

definition kindOf :: "AxisMeta option \<Rightarrow> AxisKind option" where
  "kindOf axisMeta = (case axisMeta of None \<Rightarrow> None | Some a \<Rightarrow> kind a)"

text \<open>
  All values of a series, and the range of a list of values padded as for an objective
  axis: 8 percent of the span on each side; for a flat series 5 percent of the magnitude,
  or 1 when the magnitude is zero.
\<close>

definition phaseValues :: "Phase list \<Rightarrow> real list" where
  "phaseValues phases = concat (map (\<lambda>ph. [p_open ph, p_close ph, p_low ph, p_high ph]) phases)"

definition paddedRange :: "real list \<Rightarrow> AxisRange" where
  "paddedRange vs =
     (let mn = Min (set vs); mx = Max (set vs) in
      if mn = mx then
        (if mn = 0 then \<lparr>range_min = mn - 1, range_max = mx + 1\<rparr>
         else \<lparr>range_min = mn - \<bar>mn\<bar> * 0.05, range_max = mx + \<bar>mn\<bar> * 0.05\<rparr>)
      else \<lparr>range_min = mn - (mx - mn) * 0.08, range_max = mx + (mx - mn) * 0.08\<rparr>)"

text \<open>
  The indices of the phases that do not continue their predecessor (a different label or
  a different value at the join).
\<close>

definition bridges :: "Phase list \<Rightarrow> nat list" where
  "bridges phases =
     filter (\<lambda>i. shouldBridge (phases ! (i - 1)) (phases ! i)) [1..<length phases]"

text \<open>\<open>a < b\<close> on timestamps (false when a side is NaN), and the builder's invariant.\<close>

definition jsLt :: "timestamp \<Rightarrow> timestamp \<Rightarrow> bool" where
  "jsLt a b = (case a of None \<Rightarrow> False | Some x \<Rightarrow> (case b of None \<Rightarrow> False | Some y \<Rightarrow> x < y))"

definition wellTimed :: "builder \<Rightarrow> bool" where
  "wellTimed st =
     (\<exists>l. lastTime st = Some l \<and> 0 \<le> l \<and> (\<forall>p \<in> set (points st). jsLe (time p) (Some l))
          \<and> sorted_wrt jsLt (map time (points st)))"

text \<open>
  A label that reaches the localized ordinal rule with the number \<open>n\<close>: no year is found
  in it (so neither of the two year patterns matches), and the ordinal pattern captures
  \<open>n\<close>. A string label resolved as a real year (by the rule for a year with a quarter or
  by the rule for an embedded year): the year pattern matches in it. A numeric label
  needs no notion of its own: the function takes every number for a year. \<open>yearText n\<close>
  is the string that spells the year 2000 + n, for n up to 99.
\<close>

definition ordinalLabel :: "jstring \<Rightarrow> nat \<Rightarrow> bool" where
  "ordinalLabel s n =
     (firstMatch yearAt (trim s) = None \<and> firstMatch cnOrdinalAt (trim s) = Some n)"

definition yearString :: "jstring \<Rightarrow> bool" where
  "yearString s = (firstMatch yearAt (trim s) \<noteq> None)"

definition yearText :: "nat \<Rightarrow> jstring" where
  "yearText n = [50, 48, 48 + n div 10, 48 + n mod 10]"

subsection \<open>Sample inputs of the phase transformer\<close>

definition mkPhase :: "label \<Rightarrow> label \<Rightarrow> real \<Rightarrow> real \<Rightarrow> Phase" where
  "mkPhase s e ov cv =
     \<lparr>start_year = s, end_year = e, p_open = ov, p_high = max ov cv, p_low = min ov cv,
      p_close = cv, p_label = []\<rparr>"

text \<open>Six phases, continuous except between the third and the fourth (2019 to 2020).\<close>

definition sixPhases :: "Phase list" where
  "sixPhases =
     [mkPhase (LNum 2016) (LNum 2017) 12 35, mkPhase (LNum 2017) (LNum 2018) 35 60,
      mkPhase (LNum 2018) (LNum 2019) 60 88, mkPhase (LNum 2020) (LNum 2021) 70 90,
      mkPhase (LNum 2021) (LNum 2022) 90 95, mkPhase (LNum 2022) (LNum 2023) 95 80]"

text \<open>
  Five phases; the third ends in the year 300000, which no Date can hold, and the fourth
  starts in 2017, before the start of the third.
\<close>

definition farYearPhases :: "Phase list" where
  "farYearPhases =
     [mkPhase (LNum 2016) (LNum 2017) 10 30, mkPhase (LNum 2017) (LNum 2018) 30 50,
      mkPhase (LNum 2018) (LNum 300000) 50 70, mkPhase (LNum 2017) (LNum 2019) 70 60,
      mkPhase (LNum 2019) (LNum 2020) 60 40]"

text \<open>A phase outside 0..100, and axis descriptors of both kinds.\<close>

definition wildPhase :: Phase where
  "wildPhase =
     \<lparr>start_year = LNum 2016, end_year = LNum 2017, p_open = 150, p_high = 180, p_low = - 20,
      p_close = 40, p_label = []\<rparr>"

definition subjectiveAxis :: AxisMeta where
  "subjectiveAxis = \<lparr>axis_label = [], axis_unit = None, kind = Some subjective\<rparr>"

definition objectiveAxis :: AxisMeta where
  "objectiveAxis = \<lparr>axis_label = [], axis_unit = None, kind = Some objective\<rparr>"

definition unkindAxis :: AxisMeta where
  "unkindAxis = \<lparr>axis_label = [], axis_unit = None, kind = None\<rparr>"

text \<open>
  The labels U+7B2C 1 6 U+5B63 (season 16) and U+7B2C 1 2 0 U+5B63 (season 120), and the
  plain year 2016.
\<close>

definition season16 :: jstring where
  "season16 = [31532, 49, 54, 23395]"

definition season120 :: jstring where
  "season120 = [31532, 49, 50, 48, 23395]"

definition year2016 :: jstring where
  "year2016 = [50, 48, 49, 54]"

subsection \<open>Ingestion\<close>

text \<open>
  The supplemental text is a source when something is left of it after trimming; a
  request attempts a source when it has such a text, a document or a link. The outcomes
  of the documents and links are the results of the two extractors, in the order in which
  the aggregator visits them.
\<close>

definition textAdmitted :: "jstring option \<Rightarrow> bool" where
  "textAdmitted supplementalText =
     (case supplementalText of None \<Rightarrow> False | Some t \<Rightarrow> trim t \<noteq> [])"

definition attempted :: "jstring option \<Rightarrow> jstring list \<Rightarrow> UploadedDocument list \<Rightarrow> bool" where
  "attempted supplementalText links documents =
     (textAdmitted supplementalText \<or> documents \<noteq> [] \<or> links \<noteq> [])"

definition sourceOutcomes ::
  "World \<Rightarrow> jstring list \<Rightarrow> UploadedDocument list \<Rightarrow> (IngestFailure + jstring) list" where
  "sourceOutcomes w links documents =
     map (extractTextFromDocument w) documents @ map (fetchLinkContent w) links"

definition succeeded :: "IngestFailure + jstring \<Rightarrow> bool" where
  "succeeded x = (case x of Inl e \<Rightarrow> False | Inr t \<Rightarrow> True)"

definition failed :: "IngestFailure + jstring \<Rightarrow> bool" where
  "failed x = (\<not> succeeded x)"

definition successes ::
  "World \<Rightarrow> jstring option \<Rightarrow> jstring list \<Rightarrow> UploadedDocument list \<Rightarrow> nat" where
  "successes w supplementalText links documents =
     (if textAdmitted supplementalText then 1 else 0)
     + length (filter succeeded (sourceOutcomes w links documents))"

definition failures :: "World \<Rightarrow> jstring list \<Rightarrow> UploadedDocument list \<Rightarrow> nat" where
  "failures w links documents = length (filter failed (sourceOutcomes w links documents))"

text \<open>The message and the entry that one source contributes (at most one of each).\<close>

definition documentMessage :: "World \<Rightarrow> UploadedDocument \<Rightarrow> jstring list" where
  "documentMessage w doc =
     (case extractTextFromDocument w doc of
        Inr t \<Rightarrow> []
      | Inl (ReferenceIngestionError msg) \<Rightarrow> [msg]
      | Inl OtherException \<Rightarrow> [MSG_FILE_UNREADABLE @ doc_name doc])"

definition linkMessage :: "World \<Rightarrow> jstring \<Rightarrow> jstring list" where
  "linkMessage w link =
     (case fetchLinkContent w link of
        Inr t \<Rightarrow> []
      | Inl (ReferenceIngestionError msg) \<Rightarrow> [msg]
      | Inl OtherException \<Rightarrow> [MSG_LINK_UNREACHABLE @ link])"

definition failureMessages :: "World \<Rightarrow> jstring list \<Rightarrow> UploadedDocument list \<Rightarrow> jstring list" where
  "failureMessages w links documents =
     concat (map (documentMessage w) documents) @ concat (map (linkMessage w) links)"

definition documentEntry :: "World \<Rightarrow> UploadedDocument \<Rightarrow> ReferenceEntry list" where
  "documentEntry w doc =
     (case extractTextFromDocument w doc of
        Inr t \<Rightarrow>
          [\<lparr>ref_type = FileRef, content = truncateText t MAX_REFERENCE_CHARS,
            source = doc_name doc\<rparr>]
      | Inl e \<Rightarrow> [])"

definition linkEntry :: "World \<Rightarrow> jstring \<Rightarrow> ReferenceEntry list" where
  "linkEntry w link =
     (case fetchLinkContent w link of
        Inr t \<Rightarrow>
          [\<lparr>ref_type = UrlRef, content = truncateText t MAX_REFERENCE_CHARS, source = link\<rparr>]
      | Inl e \<Rightarrow> [])"

definition textEntry :: "jstring option \<Rightarrow> ReferenceEntry list" where
  "textEntry supplementalText =
     (case supplementalText of
        None \<Rightarrow> []
      | Some t \<Rightarrow>
          if trim t \<noteq> []
          then [\<lparr>ref_type = TextRef, content = truncateText (trim t) MAX_REFERENCE_CHARS,
                 source = ascii ''user_input''\<rparr>]
          else [])"

subsection \<open>Validator and extractor\<close>

text \<open>
  The three conditions of the validator: a non-null object (an array counts, as
  \<open>typeof\<close> has it), a \<open>phases\<close> array of 5 to 10 elements, and the length of
  the \<open>source_digest\<close> string, as it is and after trimming.
\<close>

definition nonNullObject :: "json \<Rightarrow> bool" where
  "nonNullObject v = (case v of JArr xs \<Rightarrow> True | JObj kvs \<Rightarrow> True | _ \<Rightarrow> False)"

definition phasesInRange :: "json \<Rightarrow> bool" where
  "phasesInRange payload =
     (case property payload (ascii ''phases'') of
        Some (JArr ps) \<Rightarrow> 5 \<le> length ps \<and> length ps \<le> 10
      | _ \<Rightarrow> False)"

definition digestLength :: "json \<Rightarrow> nat option" where
  "digestLength payload =
     (case property payload (ascii ''source_digest'') of
        Some (JStr d) \<Rightarrow> Some (length d)
      | _ \<Rightarrow> None)"

definition digestTrimmedLength :: "json \<Rightarrow> nat option" where
  "digestTrimmedLength payload =
     (case property payload (ascii ''source_digest'') of
        Some (JStr d) \<Rightarrow> Some (length (trim d))
      | _ \<Rightarrow> None)"

definition atLeast20 :: "nat option \<Rightarrow> bool" where
  "atLeast20 n = (case n of None \<Rightarrow> False | Some k \<Rightarrow> 20 \<le> k)"

definition throws :: "ValidationError + unit \<Rightarrow> bool" where
  "throws r = (case r of Inl e \<Rightarrow> True | Inr u \<Rightarrow> False)"




text \<open>
  What the loop takes from an answer of the generator. \<open>attemptValue\<close> is the value that
  ends the loop: the extracted value of a non-empty content, when JavaScript takes it for
  true (an object or an array, but also a number other than 0, \<open>true\<close>, a non-empty
  string). \<open>nothingTruthy\<close>: the generator answered, and its content is missing, empty,
  or gives the extractor \<open>null\<close> or another value that JavaScript takes for false.
  \<open>afterLoop\<close> is the response of the route for a value that ended the loop: the
  validator's error, or the payload.
\<close>

definition attemptValue :: "World \<Rightarrow> GenResponse \<Rightarrow> json option" where
  "attemptValue w r =
     (case r of
        GenOk rawContent \<Rightarrow>
          (case rawContent of
             None \<Rightarrow> None
           | Some raw \<Rightarrow>
               if raw \<noteq> [] \<and> truthy (extractJsonPayload w raw)
               then Some (extractJsonPayload w raw) else None)
      | _ \<Rightarrow> None)"

definition nothingTruthy :: "World \<Rightarrow> GenResponse \<Rightarrow> bool" where
  "nothingTruthy w r =
     (case r of
        GenOk rawContent \<Rightarrow>
          (case rawContent of
             None \<Rightarrow> True
           | Some raw \<Rightarrow> raw = [] \<or> \<not> truthy (extractJsonPayload w raw))
      | _ \<Rightarrow> False)"

definition afterLoop :: "json \<Rightarrow> bool \<Rightarrow> PostResult" where
  "afterLoop v requireSourceDigest =
     (case validateGeneratedPayload v requireSourceDigest of
        Inl e \<Rightarrow> ValidationFailed e
      | Inr u \<Rightarrow> Generated v)"

subsection \<open>A sample world and sample requests\<close>

text \<open>
  One world for the examples. Its base64 decoder knows the encoding of "hello world",
  its HTTP client knows one page that answers 200 and one that answers 404, its HTML
  parser finds no region (the page has no body element), and its \<open>JSON.parse\<close> accepts
  the three texts \<open>0\<close>, \<open>42\<close> and \<open>{}\<close>, with the values JavaScript gives them;
  everything else fails. The generator answers the first attempt with the text \<open>0\<close> and
  the second without content. Two more worlds differ in the generator only: one answers
  \<open>42\<close>, one answers the first attempt without content and the second with \<open>{}\<close>. In
  the requests to these generators every text that is parsed is one of the three, so the
  repair is never called.
\<close>

definition demoBufferFrom :: "jstring \<Rightarrow> nat list" where
  "demoBufferFrom s =
     (if s = ascii ''aGVsbG8gd29ybGQ=''
      then [104, 101, 108, 108, 111, 32, 119, 111, 114, 108, 100] else [])"

definition demoFetch :: "jstring \<Rightarrow> FetchResult" where
  "demoFetch u =
     (if u = ascii ''https://example.com/report''
      then Response True 200 (Some (ascii ''<p>Tour  dates</p>''))
      else if u = ascii ''https://example.com/missing''
      then Response False 404 (Some (ascii ''gone''))
      else FetchThrows)"

definition demoParse :: "jstring \<Rightarrow> json option" where
  "demoParse s =
     (if s = ascii ''0'' then Some (JNum 0)
      else if s = ascii ''42'' then Some (JNum 42)
      else if s = ascii ''{}'' then Some (JObj [])
      else None)"

definition demoGenerator :: "nat \<Rightarrow> jstring \<Rightarrow> GenResponse" where
  "demoGenerator attempt userPrompt =
     (if attempt = 0 then GenOk (Some (ascii ''0'')) else GenOk None)"

definition numberGenerator :: "nat \<Rightarrow> jstring \<Rightarrow> GenResponse" where
  "numberGenerator attempt userPrompt = GenOk (Some (ascii ''42''))"

definition retryGenerator :: "nat \<Rightarrow> jstring \<Rightarrow> GenResponse" where
  "retryGenerator attempt userPrompt =
     (if attempt = 0 then GenOk None else GenOk (Some (ascii ''{}'')))"

definition demoWorld :: World where
  "demoWorld =
     \<lparr>bufferFrom = demoBufferFrom, pdfGetText = (\<lambda>b. None), mammothRawText = (\<lambda>b. None),
      bufferToString = (\<lambda>b. b), fetchUrl = demoFetch, htmlMainRegion = (\<lambda>h. NoRegion),
      jsonParse = demoParse, jsonRepair = (\<lambda>s. None), callGenerator = demoGenerator\<rparr>"

definition numberWorld :: World where
  "numberWorld = demoWorld\<lparr>callGenerator := numberGenerator\<rparr>"

definition retryWorld :: World where
  "retryWorld = demoWorld\<lparr>callGenerator := retryGenerator\<rparr>"

definition helloDocument :: UploadedDocument where
  "helloDocument =
     \<lparr>doc_name = ascii ''hello.txt'', doc_type = Some (ascii ''text/plain''),
      doc_content = ascii ''data:text/plain;base64,aGVsbG8gd29ybGQ=''\<rparr>"

definition emptyDocument :: UploadedDocument where
  "emptyDocument =
     \<lparr>doc_name = ascii ''empty.txt'', doc_type = None, doc_content = []\<rparr>"

definition reportLink :: jstring where
  "reportLink = ascii ''https://example.com/report''"

definition missingLink :: jstring where
  "missingLink = ascii ''https://example.com/missing''"

definition noteText :: jstring where
  "noteText = ascii ''  tour notes ''"

text \<open>
  Payloads for the validator: objects with a given number of (empty) phases, one of them
  with a digest of 21 characters of which 11 are left after trimming, one with a digest
  of 23 characters without surrounding white space.
\<close>

definition phasesPayload :: "nat \<Rightarrow> json" where
  "phasesPayload n = JObj [(ascii ''phases'', JArr (replicate n (JObj [])))]"

definition paddedDigestPayload :: json where
  "paddedDigestPayload =
     JObj [(ascii ''phases'', JArr [JObj [], JObj [], JObj [], JObj [], JObj []]),
           (ascii ''source_digest'', JStr (ascii ''     see sources     ''))]"

definition digestPayload :: json where
  "digestPayload =
     JObj [(ascii ''phases'', JArr [JObj [], JObj [], JObj [], JObj [], JObj []]),
           (ascii ''source_digest'', JStr (ascii ''based on the tour notes''))]"


definition basePrompt :: jstring where
  "basePrompt = ascii ''the rise and fall of X''"

section \<open>Properties of the phase transformer\<close>

subsection \<open>Evaluation rules for the samples\<close>

lemmas date_defs = yearToTimestamp_def toInteger_def dateUTC_def secondsOf_def makeFullYear_def
  dayFromYear_def dayWithinYear_def inLeapYear_def

lemmas string_defs = trim_def isWhiteSpace_def isDigit_def digitsValue_def ascii_def

lemma ascii_eq_Nil [simp]: "ascii s = [] \<longleftrightarrow> s = []"
  by (simp add: ascii_def)

lemma numeric_year_timestamps:
  "yearToTimestamp (LNum 2016) i = Some 1451606400"
  "yearToTimestamp (LNum 2017) i = Some 1483228800"
  "yearToTimestamp (LNum 2018) i = Some 1514764800"
  "yearToTimestamp (LNum 2019) i = Some 1546300800"
  "yearToTimestamp (LNum 2020) i = Some 1577836800"
  "yearToTimestamp (LNum 2021) i = Some 1609459200"
  "yearToTimestamp (LNum 2022) i = Some 1640995200"
  "yearToTimestamp (LNum 2023) i = Some 1672531200"
  "yearToTimestamp (LNum 300000) i = None"
  by (simp_all add: date_defs)

lemma sample_label_matches:
  "firstMatch yearAt (trim season16) = None"
  "firstMatch cnOrdinalAt (trim season16) = Some 16"
  "firstMatch yearAt (trim season120) = None"
  "firstMatch cnOrdinalAt (trim season120) = Some 120"
  "firstMatch quarterAt (trim year2016) = None"
  "firstMatch yearAt (trim year2016) = Some 2016"
  by (simp_all add: season16_def season120_def year2016_def string_defs quarterAt_def
      cnOrdinalAt_def cnBodyAt_def)

subsection \<open>Clamping\<close>

lemma clampScore_range: "0 \<le> clampScore v \<and> clampScore v \<le> 100"
  by (simp add: clampScore_def)

lemma normalizePhases_True: "normalizePhases phases True = map clampedPhase phases"
  by (simp add: normalizePhases_def clampedPhase_def)

lemma normalizePhases_False: "normalizePhases phases False = phases"
  by (simp add: normalizePhases_def)

lemma inHundred_clampedPhase: "inHundred (clampedPhase ph)"
  by (simp add: inHundred_def clampedPhase_def clampScore_range)

text \<open>
  C3. For a subjective axis the page hands the phases to point construction with all four
  values clamped into 0..100 (150 becomes 100, -20 becomes 0); for an objective axis it
  hands them over unchanged.
\<close>

theorem normalizePhases_by_axis_kind:
  "(kind a = Some subjective \<longrightarrow>
      displayPhases phases (Some a) = map clampedPhase phases
      \<and> (\<forall>ph \<in> set (displayPhases phases (Some a)). inHundred ph))
   \<and> (kind a = Some objective \<longrightarrow> displayPhases phases (Some a) = phases)
   \<and> clampScore 150 = 100 \<and> clampScore (- 20) = 0"
  by (auto simp: displayPhases_def shouldClamp_def normalizePhases_True normalizePhases_False
      inHundred_clampedPhase clampScore_def)

theorem normalizePhases_by_axis_kind_witness:
  "kind subjectiveAxis = Some subjective
   \<and> displayPhases [wildPhase] (Some subjectiveAxis) =
       [wildPhase\<lparr>p_open := 100, p_high := 100, p_low := 0, p_close := 40\<rparr>]
   \<and> inHundred (wildPhase\<lparr>p_open := 100, p_high := 100, p_low := 0, p_close := 40\<rparr>)
   \<and> kind objectiveAxis = Some objective
   \<and> displayPhases [wildPhase] (Some objectiveAxis) = [wildPhase]"
  using normalizePhases_by_axis_kind [of subjectiveAxis "[wildPhase]"]
    normalizePhases_by_axis_kind [of objectiveAxis "[wildPhase]"]
  by (simp add: subjectiveAxis_def objectiveAxis_def clampedPhase_def wildPhase_def
      clampScore_def)

subsection \<open>Ranges\<close>

lemma fold_min_Min: "fold min vs (v::real) = Min (set (v # vs))"
  by (metis Min.set_eq_fold)

lemma fold_max_Max: "fold max vs (v::real) = Max (set (v # vs))"
  by (metis Max.set_eq_fold)

lemma phaseValues_nonempty: "phases \<noteq> [] \<Longrightarrow> phaseValues phases \<noteq> []"
  by (cases phases) (simp_all add: phaseValues_def)

lemma computePhaseRange_not_subjective:
  assumes "phases \<noteq> []" "kindOf axis \<noteq> Some subjective"
  shows "computePhaseRange phases axis = Some (paddedRange (phaseValues phases))"
proof -
  obtain v vs where vs: "phaseValues phases = v # vs"
    using phaseValues_nonempty[OF assms(1)] by (cases "phaseValues phases") auto
  then have c: "concat (map (\<lambda>ph. [p_open ph, p_close ph, p_low ph, p_high ph]) phases) = v # vs"
    by (simp add: phaseValues_def)
  have k: "(case axis of None \<Rightarrow> None | Some a \<Rightarrow> kind a) \<noteq> Some subjective"
    using assms(2) by (simp add: kindOf_def)
  show ?thesis
    using assms(1) k unfolding computePhaseRange_def c vs paddedRange_def fold_min_Min fold_max_Max
    by (simp add: Let_def)
qed

lemma computePhaseRange_subjective:
  "phases \<noteq> [] \<Longrightarrow> kindOf axis = Some subjective \<Longrightarrow>
   computePhaseRange phases axis = Some \<lparr>range_min = 0, range_max = 100\<rparr>"
  by (simp add: computePhaseRange_def kindOf_def)

text \<open>
  C10. When the kind of an axis is absent, the phases are clamped into 0..100 as for a
  subjective axis, while the range of the axis is the padded minimum and maximum of the
  (clamped) data, exactly the range an objective axis gets for the same data; the fixed
  range 0..100 is what the subjective kind gets.
\<close>

theorem absent_kind_clamps_and_ranges_from_data:
  assumes "kindOf axisMeta = None"
  shows "shouldClamp axisMeta
     \<and> displayPhases phases axisMeta = map clampedPhase phases
     \<and> (\<forall>ph \<in> set (displayPhases phases axisMeta). inHundred ph)
     \<and> (phases \<noteq> [] \<longrightarrow>
          primaryRange phases axisMeta = Some (paddedRange (phaseValues (map clampedPhase phases)))
          \<and> primaryRange phases axisMeta
              = computePhaseRange (displayPhases phases axisMeta) (Some objectiveAxis)
          \<and> computePhaseRange (displayPhases phases axisMeta) (Some subjectiveAxis)
              = Some \<lparr>range_min = 0, range_max = 100\<rparr>)"
proof -
  have k: "(case axisMeta of None \<Rightarrow> None | Some a \<Rightarrow> kind a) = None"
    using assms by (simp add: kindOf_def)
  have s: "shouldClamp axisMeta" by (simp add: shouldClamp_def k)
  have d: "displayPhases phases axisMeta = map clampedPhase phases"
    by (simp add: displayPhases_def s normalizePhases_True)
  have r: "primaryRange phases axisMeta = Some (paddedRange (phaseValues (map clampedPhase phases)))"
    if "phases \<noteq> []"
    unfolding primaryRange_def d
    by (rule computePhaseRange_not_subjective) (simp_all add: that assms)
  have o: "computePhaseRange (map clampedPhase phases) (Some objectiveAxis)
      = Some (paddedRange (phaseValues (map clampedPhase phases)))" if "phases \<noteq> []"
    by (rule computePhaseRange_not_subjective) (simp_all add: that kindOf_def objectiveAxis_def)
  have f: "computePhaseRange (map clampedPhase phases) (Some subjectiveAxis)
      = Some \<lparr>range_min = 0, range_max = 100\<rparr>" if "phases \<noteq> []"
    by (rule computePhaseRange_subjective) (simp_all add: that kindOf_def subjectiveAxis_def)
  show ?thesis using s d r o f by (simp add: inHundred_clampedPhase)
qed

theorem absent_kind_clamps_and_ranges_from_data_witness:
  "kindOf None = None
   \<and> displayPhases [wildPhase] None =
       [wildPhase\<lparr>p_open := 100, p_high := 100, p_low := 0, p_close := 40\<rparr>]
   \<and> primaryRange [wildPhase] None = Some \<lparr>range_min = - 8, range_max = 108\<rparr>
   \<and> kindOf (Some unkindAxis) = None
   \<and> primaryRange [wildPhase] (Some unkindAxis) = Some \<lparr>range_min = - 8, range_max = 108\<rparr>
   \<and> primaryRange [wildPhase] (Some subjectiveAxis) = Some \<lparr>range_min = 0, range_max = 100\<rparr>"
proof -
  have n: "kindOf None = None" and u: "kindOf (Some unkindAxis) = None"
    by (simp_all add: kindOf_def unkindAxis_def)
  have c: "map clampedPhase [wildPhase] =
      [wildPhase\<lparr>p_open := 100, p_high := 100, p_low := 0, p_close := 40\<rparr>]"
    by (simp add: clampedPhase_def wildPhase_def clampScore_def)
  have p: "paddedRange (phaseValues (map clampedPhase [wildPhase]))
      = \<lparr>range_min = - 8, range_max = 108\<rparr>"
    unfolding c by (simp add: paddedRange_def phaseValues_def wildPhase_def)
  have s: "primaryRange [wildPhase] (Some subjectiveAxis) = Some \<lparr>range_min = 0, range_max = 100\<rparr>"
    by (simp add: primaryRange_def displayPhases_def shouldClamp_def normalizePhases_def
        computePhaseRange_def subjectiveAxis_def)
  show ?thesis
    using absent_kind_clamps_and_ranges_from_data [OF n, of "[wildPhase]"]
      absent_kind_clamps_and_ranges_from_data [OF u, of "[wildPhase]"] n u c p s
    by simp
qed

subsection \<open>Point construction: how many points\<close>

lemma length_pushPoint: "length (points (pushPoint t v ph st)) = Suc (length (points st))"
  by (simp add: pushPoint_def Let_def)

lemma length_phaseStep:
  "length (points (phaseStep phases st k)) =
   length (points st) + 1 +
   (if k = 0 \<or> shouldBridge (phases ! (k - 1)) (phases ! k) then 1 else 0)"
  by (simp add: phaseStep_def Let_def length_pushPoint)

lemma length_run:
  "length (points (foldl (phaseStep phases) st [0..<k])) =
   length (points st) + k + (if 0 < k then 1 else 0)
   + length (filter (\<lambda>i. shouldBridge (phases ! (i - 1)) (phases ! i)) [1..<k])"
proof (induction k)
  case 0
  then show ?case by simp
next
  case (Suc k)
  show ?case
  proof (cases "k = 0")
    case True
    then show ?thesis by (simp add: length_phaseStep)
  next
    case False
    then have u: "[1..<Suc k] = [1..<k] @ [k]" by simp
    show ?thesis using False Suc.IH unfolding u by (simp add: length_phaseStep)
  qed
qed

lemma length_buildAreaData:
  "phases \<noteq> [] \<Longrightarrow>
   length (buildAreaData phases) = length phases + 1 + length (bridges phases)"
  by (simp add: buildAreaData_def length_run bridges_def)

text \<open>
  Whatever the axis, the value of every point is the clamped open or close value of its
  phase: \<open>buildAreaData\<close> applies \<open>clampScore\<close> itself.
\<close>

lemma values_pushPoint:
  "point_value ` set (points (pushPoint t v ph st)) = insert v (point_value ` set (points st))"
  by (auto simp: pushPoint_def Let_def)

lemma values_phaseStep:
  assumes "\<forall>p \<in> set (points st). 0 \<le> point_value p \<and> point_value p \<le> 100"
  shows "\<forall>p \<in> set (points (phaseStep phases st k)). 0 \<le> point_value p \<and> point_value p \<le> 100"
proof -
  have "point_value ` set (points (phaseStep phases st k))
      \<subseteq> {clampScore (p_open (phases ! k)), clampScore (p_close (phases ! k))}
          \<union> point_value ` set (points st)"
    by (auto simp: phaseStep_def Let_def values_pushPoint)
  then show ?thesis using assms clampScore_range by fastforce
qed

lemma buildAreaData_values_in_hundred:
  "\<forall>p \<in> set (buildAreaData phases). 0 \<le> point_value p \<and> point_value p \<le> 100"
proof -
  have "\<forall>p \<in> set (points (foldl (phaseStep phases) \<lparr>points = [], lastTime = Some 0\<rparr> [0..<k])).
      0 \<le> point_value p \<and> point_value p \<le> 100" for k
  proof (induction k)
    case 0
    then show ?case by simp
  next
    case (Suc k)
    then show ?case using values_phaseStep by simp
  qed
  then show ?thesis by (simp add: buildAreaData_def)
qed

lemma sixPhases_bridges: "bridges sixPhases = [3]"
  by (simp add: bridges_def sixPhases_def mkPhase_def shouldBridge_def upt_rec)

lemma sixPhases_times:
  "map time (buildAreaData sixPhases) =
     [Some 1451606400, Some 1483228800, Some 1514764800, Some 1546300800, Some 1577836800,
      Some 1609459200, Some 1640995200, Some 1672531200]"
  by (simp add: buildAreaData_def sixPhases_def mkPhase_def phaseStep_def pushPoint_def jsLe_def
      shouldBridge_def upt_rec numeric_year_timestamps Let_def)

text \<open>
  C8, as the claim states it, fails: six phases with exactly one discontinuous join (the
  fourth phase starts in 2020, the third ends in 2019) give eight points, not seven.
\<close>

theorem six_phases_one_gap_counterexample:
  "length sixPhases = 6 \<and> bridges sixPhases = [3] \<and> length (buildAreaData sixPhases) = 8
   \<and> length (buildAreaData sixPhases) \<noteq> 7"
proof -
  have "length (map time (buildAreaData sixPhases)) = 8"
    unfolding sixPhases_times by simp
  then show ?thesis by (simp add: sixPhases_bridges) (simp add: sixPhases_def)
qed

text \<open>
  C8, amended. A sequence of six phases with exactly one discontinuous join gives exactly
  eight points: the start point of the first phase, one bridge start point, and six end
  points.
\<close>

theorem buildAreaData_six_phases_one_bridge:
  "length phases = 6 \<Longrightarrow> length (bridges phases) = 1 \<Longrightarrow> length (buildAreaData phases) = 8"
  using length_buildAreaData[of phases] by (cases phases) auto

theorem buildAreaData_six_phases_one_bridge_witness:
  "length sixPhases = 6 \<and> length (bridges sixPhases) = 1 \<and> length (buildAreaData sixPhases) = 8"
proof -
  have a: "length sixPhases = 6" by (simp add: sixPhases_def)
  have b: "length (bridges sixPhases) = 1" by (simp add: sixPhases_bridges)
  show ?thesis using buildAreaData_six_phases_one_bridge [OF a b] a b by simp
qed

subsection \<open>Point construction: the time axis\<close>

lemma wellTimed_pushPoint:
  assumes "wellTimed st" "t \<noteq> None"
  shows "wellTimed (pushPoint t v ph st)"
proof -
  from assms obtain l x where l: "lastTime st = Some l" "0 \<le> l"
      "\<forall>p \<in> set (points st). jsLe (time p) (Some l)"
      "sorted_wrt jsLt (map time (points st))" and x: "t = Some x"
    by (auto simp: wellTimed_def)
  define t' where "t' = (if x \<le> l then l + 86400 else x)"
  have gt: "l < t'" by (simp add: t'_def)
  have p: "pushPoint t v ph st =
      \<lparr>points = points st @ [\<lparr>time = Some t', point_value = v, phase = ph\<rparr>], lastTime = Some t'\<rparr>"
    by (simp add: pushPoint_def l x jsLe_def t'_def Let_def)
  have a: "\<forall>p \<in> set (points st). jsLt (time p) (Some t')"
    using l(3) gt by (auto simp: jsLe_def jsLt_def split: option.splits)
  have b: "\<forall>p \<in> set (points st). jsLe (time p) (Some t')"
    using l(3) gt by (auto simp: jsLe_def split: option.splits)
  show ?thesis
    unfolding wellTimed_def p using l(2,4) gt a b
    by (auto simp: sorted_wrt_append jsLe_def)
qed

lemma wellTimed_phaseStep:
  assumes "wellTimed st" "yearToTimestamp (start_year (phases ! k)) k \<noteq> None"
    "yearToTimestamp (end_year (phases ! k)) (k + 1) \<noteq> None"
  shows "wellTimed (phaseStep phases st k)"
  unfolding phaseStep_def Let_def using assms
  by (auto simp del: not_None_eq intro!: wellTimed_pushPoint)

lemma wellTimed_run:
  assumes "\<forall>i < k. yearToTimestamp (start_year (phases ! i)) i \<noteq> None
              \<and> yearToTimestamp (end_year (phases ! i)) (i + 1) \<noteq> None"
  shows "wellTimed (foldl (phaseStep phases) \<lparr>points = [], lastTime = Some 0\<rparr> [0..<k])"
  using assms
proof (induction k)
  case 0
  then show ?case by (simp add: wellTimed_def)
next
  case (Suc k)
  then show ?case by (simp add: wellTimed_phaseStep)
qed

text \<open>
  As long as every label resolves to a timestamp that is a number (not NaN), the emitted
  timestamps are strictly increasing.
\<close>

lemma buildAreaData_increasing_without_NaN:
  assumes "\<forall>i < length phases. yearToTimestamp (start_year (phases ! i)) i \<noteq> None
              \<and> yearToTimestamp (end_year (phases ! i)) (i + 1) \<noteq> None"
  shows "sorted_wrt jsLt (map time (buildAreaData phases))"
proof (cases "phases = []")
  case True
  then show ?thesis by (simp add: buildAreaData_def)
next
  case False
  have "wellTimed (foldl (phaseStep phases) \<lparr>points = [], lastTime = Some 0\<rparr> [0..<length phases])"
    using assms by (rule wellTimed_run)
  then show ?thesis using False
    by (auto simp: buildAreaData_def wellTimed_def)
qed

text \<open>
  C1. The property fails on the code when a label resolves to NaN: the year 300000 is
  beyond the range of Date, the comparison of \<open>pushPoint\<close> is false for NaN, so NaN is
  emitted and kept as the last time, and the next timestamp (2017) is emitted unchanged
  after a larger one (2018). The emitted times are not strictly increasing.
\<close>

theorem buildAreaData_far_year_times:
  "map time (buildAreaData farYearPhases)
     = [Some 1451606400, Some 1483228800, Some 1514764800, None, Some 1483228800,
        Some 1546300800, Some 1577836800]
   \<and> \<not> sorted_wrt jsLt (map time (buildAreaData farYearPhases))"
proof -
  have e: "map time (buildAreaData farYearPhases)
     = [Some 1451606400, Some 1483228800, Some 1514764800, None, Some 1483228800,
        Some 1546300800, Some 1577836800]"
    by (simp add: buildAreaData_def farYearPhases_def mkPhase_def phaseStep_def pushPoint_def
        jsLe_def shouldBridge_def upt_rec numeric_year_timestamps Let_def)
  show ?thesis unfolding e by (simp add: jsLt_def)
qed

subsection \<open>Ordinal labels and real years\<close>

lemma firstMatch_SomeD: "firstMatch m s = Some r \<Longrightarrow> \<exists>t. m t = Some r"
  by (induction s) (auto split: option.splits)

lemma yearAt_range: "yearAt s = Some y \<Longrightarrow> 1900 \<le> y \<and> y \<le> 2099"
  by (cases s rule: yearAt.cases) (auto simp: isDigit_def digitsValue_def split: if_splits)

lemma quarterAt_range:
  "quarterAt s = Some (y, q) \<Longrightarrow> 1900 \<le> y \<and> y \<le> 2099 \<and> 1 \<le> q \<and> q \<le> 4"
  by (auto simp: quarterAt_def split: option.splits list.splits if_splits dest: yearAt_range)

lemma quarterAt_yearAt: "yearAt s = None \<Longrightarrow> quarterAt s = None"
  by (simp add: quarterAt_def)

lemma firstMatch_quarter_None: "firstMatch yearAt s = None \<Longrightarrow> firstMatch quarterAt s = None"
  by (induction s) (auto simp: quarterAt_yearAt split: option.splits)

lemma dayFromYear_alt:
  "dayFromYear y =
     365 * y - 719050 + (y - 1969) div 4 - (y - 1901) div 100 + (y - 1601) div 400"
  by (simp add: dayFromYear_def)

lemma dayFromYear_upper: "y \<le> 2099 \<Longrightarrow> dayFromYear y \<le> 47118"
  unfolding dayFromYear_alt by linarith

lemma dayFromYear_lower: "1900 \<le> y \<Longrightarrow> - 25570 \<le> dayFromYear y"
  unfolding dayFromYear_alt by linarith

lemma dayFromYear_synthetic: "2100 \<le> y \<Longrightarrow> 47480 \<le> dayFromYear y"
  unfolding dayFromYear_alt by linarith

lemma dayWithinYear_bounds: "0 \<le> dayWithinYear mn leap \<and> dayWithinYear mn leap \<le> 335"
  by (simp add: dayWithinYear_def Let_def)

lemma secondsOf_dateUTC:
  "secondsOf (dateUTC y m) =
     (let ym = makeFullYear y + m div 12;
          day = dayFromYear ym + dayWithinYear (m mod 12) (inLeapYear ym)
      in if \<bar>day\<bar> \<le> 100000000 then Some (day * 86400) else None)"
  by (simp add: secondsOf_def dateUTC_def Let_def abs_mult)

lemma real_year_timestamp:
  assumes "1900 \<le> y" "y \<le> 2099" "0 \<le> m" "m < 12"
  shows "\<exists>t. secondsOf (dateUTC y m) = Some t \<and> t < 47480 * 86400"
proof -
  have f: "makeFullYear y + m div 12 = y" using assms by (simp add: makeFullYear_def)
  define day where "day = dayFromYear y + dayWithinYear (m mod 12) (inLeapYear y)"
  have b: "- 25570 \<le> day" "day \<le> 47453"
    using dayFromYear_upper[OF assms(2)] dayFromYear_lower[OF assms(1)]
      dayWithinYear_bounds[of "m mod 12" "inLeapYear y"]
    by (simp_all add: day_def)
  have "secondsOf (dateUTC y m) = Some (day * 86400)"
    using b by (simp add: secondsOf_dateUTC f Let_def day_def)
  then show ?thesis using b by simp
qed

lemma synthetic_year_timestamp:
  assumes "2100 \<le> y" "secondsOf (dateUTC y 0) = Some t"
  shows "47480 * 86400 \<le> t"
proof -
  have f: "makeFullYear y + 0 div 12 = y" using assms by (simp add: makeFullYear_def)
  have "t = dayFromYear y * 86400"
    using assms(2) unfolding secondsOf_dateUTC f
    by (simp add: Let_def dayWithinYear_def split: if_splits)
  then show ?thesis using dayFromYear_synthetic[OF assms(1)] by simp
qed

lemma ordinal_resolution:
  "ordinalLabel s n \<Longrightarrow> yearToTimestamp (LStr s) i = secondsOf (dateUTC (2000 + int n) 0)"
  by (simp add: ordinalLabel_def yearToTimestamp_def Let_def firstMatch_quarter_None)

lemma yearString_timestamp:
  assumes "yearString s"
  shows "\<exists>t. yearToTimestamp (LStr s) j = Some t \<and> t < 47480 * 86400"
proof -
  obtain y where y: "firstMatch yearAt (trim s) = Some y"
    using assms by (auto simp: yearString_def)
  then have yr: "1900 \<le> int y" "int y \<le> 2099"
    using firstMatch_SomeD[OF y] yearAt_range by auto
  show ?thesis
  proof (cases "firstMatch quarterAt (trim s)")
    case None
    then show ?thesis using y real_year_timestamp[OF yr, of 0]
      by (simp add: yearToTimestamp_def Let_def)
  next
    case (Some yq)
    obtain y' q where yq: "yq = (y', q)" by (cases yq)
    have r: "1900 \<le> int y'" "int y' \<le> 2099" "1 \<le> q" "q \<le> 4"
      using firstMatch_SomeD[OF Some] quarterAt_range unfolding yq by auto
    have "0 \<le> (int q - 1) * 3" "(int q - 1) * 3 < 12" using r by auto
    from real_year_timestamp[OF r(1,2) this] show ?thesis
      using Some yq by (simp add: yearToTimestamp_def Let_def)
  qed
qed

lemma yearText_matches:
  assumes "n \<le> 99"
  shows "trim (yearText n) = yearText n"
    and "firstMatch quarterAt (yearText n) = None"
    and "firstMatch yearAt (yearText n) = Some (2000 + n)"
proof -
  have d: "n div 10 \<le> 9" "n mod 10 \<le> 9" using assms by auto
  have w: "\<not> isWhiteSpace 50" "\<not> isWhiteSpace (48 + n mod 10)"
    using d by (simp_all add: isWhiteSpace_def)
  show "trim (yearText n) = yearText n"
    using w by (simp add: trim_def yearText_def)
  have g: "isDigit (48 + n div 10)" "isDigit (48 + n mod 10)"
    using d by (simp_all add: isDigit_def)
  show "firstMatch quarterAt (yearText n) = None"
    using g by (simp add: yearText_def quarterAt_def)
  have "10 * (n div 10) + n mod 10 = n" by simp
  then show "firstMatch yearAt (yearText n) = Some (2000 + n)"
    using g by (simp add: yearText_def digitsValue_def)
qed

lemma dayFromYear_in_range:
  assumes "2000 \<le> y" "y \<le> 275760"
  shows "0 \<le> dayFromYear y" "dayFromYear y \<le> 100000000"
  using assms unfolding dayFromYear_alt by linarith+

lemma sample_label_timestamps:
  "yearToTimestamp (LStr season16) i = Some 1451606400"
  "yearToTimestamp (LStr season120) i = Some 4733510400"
  "yearToTimestamp (LStr year2016) i = Some 1451606400"
  by (simp_all add: yearToTimestamp_def Let_def sample_label_matches firstMatch_quarter_None
      dateUTC_def secondsOf_def makeFullYear_def dayFromYear_def dayWithinYear_def
      inLeapYear_def)

text \<open>
  C4, as the claim states it, fails: the label of season 16 reaches the ordinal rule and
  gets the timestamp of 1 January 2016, the timestamp of the real year label 2016 (as a
  string and as a number).
\<close>

theorem season16_collides_with_2016_counterexample:
  "ordinalLabel season16 16 \<and> yearString year2016
   \<and> yearToTimestamp (LStr season16) 0 = Some 1451606400
   \<and> yearToTimestamp (LStr year2016) 0 = Some 1451606400
   \<and> yearToTimestamp (LNum 2016) 0 = Some 1451606400"
  by (simp add: ordinalLabel_def yearString_def sample_label_matches sample_label_timestamps
      numeric_year_timestamps)

text \<open>
  C4, amended. A label that reaches the localized ordinal rule with the number \<open>n\<close> gets
  the timestamp of 1 January of the synthetic year 2000 + n, a number as long as n is at
  most 273760 (NaN beyond the range of Date). This is, for every n, the value that the
  numeric label 2000 + n gets, so the synthetic year always collides with a numeric year
  label. Up to 99 it is also the timestamp of the string label that spells the year
  2000 + n; from 100 on it differs from the timestamp of every string label resolved as
  a real year (by a year with a quarter or by an embedded year).
\<close>

theorem ordinal_label_timestamp:
  assumes "ordinalLabel s n"
  shows "yearToTimestamp (LStr s) i = secondsOf (dateUTC (2000 + int n) 0)
     \<and> (n \<le> 273760 \<longrightarrow> (\<exists>t. yearToTimestamp (LStr s) i = Some t))
     \<and> (\<forall>j. yearToTimestamp (LNum (real (2000 + n))) j = yearToTimestamp (LStr s) i)
     \<and> (n \<le> 99 \<longrightarrow>
          yearString (yearText n)
          \<and> (\<forall>j. yearToTimestamp (LStr (yearText n)) j = yearToTimestamp (LStr s) i))
     \<and> (100 \<le> n \<longrightarrow>
          (\<forall>s' j. yearString s' \<longrightarrow>
             yearToTimestamp (LStr s') j \<noteq> yearToTimestamp (LStr s) i))"
proof -
  have r: "yearToTimestamp (LStr s) i = secondsOf (dateUTC (2000 + int n) 0)"
    using assms by (rule ordinal_resolution)
  have v: "\<exists>t. yearToTimestamp (LStr s) i = Some t" if h: "n \<le> 273760"
  proof -
    have "0 \<le> dayFromYear (2000 + int n)" "dayFromYear (2000 + int n) \<le> 100000000"
      using h dayFromYear_in_range[of "2000 + int n"] by simp_all
    then show ?thesis
      unfolding r secondsOf_dateUTC by (simp add: makeFullYear_def dayWithinYear_def Let_def)
  qed
  have b: "yearToTimestamp (LNum (real (2000 + n))) j = yearToTimestamp (LStr s) i" for j
    unfolding r by (simp add: yearToTimestamp_def toInteger_def)
  have c: "yearString (yearText n)
      \<and> (\<forall>j. yearToTimestamp (LStr (yearText n)) j = yearToTimestamp (LStr s) i)"
    if h: "n \<le> 99"
    unfolding r using yearText_matches[OF h]
    by (simp add: yearString_def yearToTimestamp_def Let_def)
  have a: "yearToTimestamp (LStr s') j \<noteq> yearToTimestamp (LStr s) i"
    if h: "100 \<le> n" "yearString s'" for s' j
  proof -
    obtain t where t: "yearToTimestamp (LStr s') j = Some t" "t < 47480 * 86400"
      using yearString_timestamp[OF h(2)] by blast
    show ?thesis
    proof
      assume "yearToTimestamp (LStr s') j = yearToTimestamp (LStr s) i"
      then have "secondsOf (dateUTC (2000 + int n) 0) = Some t" using r t by simp
      from synthetic_year_timestamp[OF _ this] h(1) t(2) show False by simp
    qed
  qed
  show ?thesis using r v a b c by blast
qed

theorem ordinal_label_timestamp_witness:
  "ordinalLabel season120 120
   \<and> yearToTimestamp (LStr season120) 0 = Some 4733510400
   \<and> yearToTimestamp (LNum 2120) 0 = yearToTimestamp (LStr season120) 0
   \<and> yearString year2016
   \<and> yearToTimestamp (LStr year2016) 0 \<noteq> yearToTimestamp (LStr season120) 0
   \<and> ordinalLabel season16 16
   \<and> yearToTimestamp (LNum 2016) 0 = yearToTimestamp (LStr season16) 0
   \<and> yearText 16 = year2016
   \<and> yearToTimestamp (LStr year2016) 0 = yearToTimestamp (LStr season16) 0"
proof -
  have a: "ordinalLabel season120 120" and b: "ordinalLabel season16 16"
    by (simp_all add: ordinalLabel_def sample_label_matches)
  have c: "yearString year2016"
    by (simp add: yearString_def sample_label_matches)
  have y: "yearText 16 = year2016"
    by (simp add: yearText_def year2016_def)
  have d: "yearToTimestamp (LStr year2016) 0 \<noteq> yearToTimestamp (LStr season120) 0"
    using ordinal_label_timestamp [OF a, of 0] c by auto
  have e: "yearToTimestamp (LNum 2120) 0 = yearToTimestamp (LStr season120) 0"
    using ordinal_label_timestamp [OF a, of 0] by auto
  have f: "yearToTimestamp (LNum 2016) 0 = yearToTimestamp (LStr season16) 0"
    "yearToTimestamp (LStr (yearText 16)) 0 = yearToTimestamp (LStr season16) 0"
    using ordinal_label_timestamp [OF b, of 0] by auto
  show ?thesis using a b c d e f y by (simp add: sample_label_timestamps)
qed

section \<open>Properties of the ingestion aggregator\<close>

subsection \<open>The aggregator as a function of the outcomes\<close>

lemma documentStep_eq:
  "documentStep w st doc =
     \<lparr>refs = refs st @ documentEntry w doc,
      partialErrors = partialErrors st @ documentMessage w doc, hadInput = True\<rparr>"
  by (simp add: documentStep_def documentEntry_def documentMessage_def pushReference_def Let_def
      split: sum.splits IngestFailure.splits)

lemma linkStep_eq:
  "linkStep w st link =
     \<lparr>refs = refs st @ linkEntry w link,
      partialErrors = partialErrors st @ linkMessage w link, hadInput = True\<rparr>"
  by (simp add: linkStep_def linkEntry_def linkMessage_def pushReference_def Let_def
      split: sum.splits IngestFailure.splits)

lemma textStep_eq:
  "textStep t \<lparr>refs = [], partialErrors = [], hadInput = False\<rparr> =
     \<lparr>refs = textEntry t, partialErrors = [], hadInput = textAdmitted t\<rparr>"
  by (simp add: textStep_def textEntry_def textAdmitted_def pushReference_def Let_def
      split: option.splits)

lemma foldl_documentStep:
  "foldl (documentStep w) st docs =
     \<lparr>refs = refs st @ concat (map (documentEntry w) docs),
      partialErrors = partialErrors st @ concat (map (documentMessage w) docs),
      hadInput = (hadInput st \<or> docs \<noteq> [])\<rparr>"
  by (induction docs arbitrary: st) (simp_all add: documentStep_eq)

lemma foldl_linkStep:
  "foldl (linkStep w) st ls =
     \<lparr>refs = refs st @ concat (map (linkEntry w) ls),
      partialErrors = partialErrors st @ concat (map (linkMessage w) ls),
      hadInput = (hadInput st \<or> ls \<noteq> [])\<rparr>"
  by (induction ls arbitrary: st) (simp_all add: linkStep_eq)

lemma ingestLoops_eq:
  "ingestLoops w t links docs =
     \<lparr>refs = textEntry t @ concat (map (documentEntry w) docs) @ concat (map (linkEntry w) links),
      partialErrors = failureMessages w links docs,
      hadInput = attempted t links docs\<rparr>"
  by (simp add: ingestLoops_def textStep_eq foldl_documentStep foldl_linkStep failureMessages_def
      attempted_def)

lemma length_documentEntries:
  "length (concat (map (documentEntry w) docs))
     = length (filter succeeded (map (extractTextFromDocument w) docs))"
  by (induction docs) (auto simp: documentEntry_def succeeded_def split: sum.splits)

lemma length_linkEntries:
  "length (concat (map (linkEntry w) ls))
     = length (filter succeeded (map (fetchLinkContent w) ls))"
  by (induction ls) (auto simp: linkEntry_def succeeded_def split: sum.splits)

lemma length_documentMessages:
  "length (concat (map (documentMessage w) docs))
     = length (filter failed (map (extractTextFromDocument w) docs))"
  by (induction docs)
     (auto simp: documentMessage_def failed_def succeeded_def
       split: sum.splits IngestFailure.splits)

lemma length_linkMessages:
  "length (concat (map (linkMessage w) ls))
     = length (filter failed (map (fetchLinkContent w) ls))"
  by (induction ls)
     (auto simp: linkMessage_def failed_def succeeded_def split: sum.splits IngestFailure.splits)

lemma length_refs:
  "length (refs (ingestLoops w t links docs)) = successes w t links docs"
  by (simp add: ingestLoops_eq successes_def sourceOutcomes_def length_documentEntries
      length_linkEntries textEntry_def textAdmitted_def split: option.splits)

lemma length_failureMessages:
  "length (failureMessages w links docs) = failures w links docs"
  by (simp add: failureMessages_def failures_def sourceOutcomes_def length_documentMessages
      length_linkMessages)

lemma outcomes_total:
  "length (filter failed xs) + length (filter succeeded xs) = length xs"
  by (induction xs) (auto simp: failed_def)

lemma attempted_counts:
  "attempted t links docs \<longleftrightarrow> 0 < successes w t links docs + failures w links docs"
proof -
  have "failures w links docs + length (filter succeeded (sourceOutcomes w links docs))
        = length docs + length links"
    unfolding failures_def using outcomes_total[of "sourceOutcomes w links docs"]
    by (simp add: sourceOutcomes_def)
  then show ?thesis
    by (cases "textAdmitted t") (auto simp: attempted_def successes_def)
qed

subsection \<open>Evaluation of the sample sources\<close>

lemma sample_documents:
  "extractTextFromDocument demoWorld helloDocument = Inr (ascii ''hello world'')"
  "extractTextFromDocument demoWorld emptyDocument
     = Inl (ReferenceIngestionError (MSG_FILE_EMPTY @ ascii ''empty.txt''))"
  by (simp_all add: extractTextFromDocument_def decodeDocumentBuffer_def rawDocumentText_def
      demoWorld_def demoBufferFrom_def helloDocument_def emptyDocument_def MAX_UPLOAD_BYTES_def
      isPdf_def isDocx_def startsWith_def endsWith_def toLowerCase_def normalizeWhitespace_def
      string_defs Let_def)

lemma sample_plain_text: "extractPlainText (ascii ''<p>Tour  dates</p>'') = ascii ''Tour dates''"
  by (simp add: extractPlainText_def blockAt_def tagAt_def afterChar_def ciEq_def string_defs)

lemma sample_links:
  "fetchLinkContent demoWorld reportLink = Inr (ascii ''Tour dates'')"
  "fetchLinkContent demoWorld missingLink
     = Inl (ReferenceIngestionError
         (MSG_LINK_STATUS @ ascii ''404'' @ [65306] @ ascii ''https://example.com/missing''))"
  by (simp_all add: fetchLinkContent_def demoWorld_def demoFetch_def reportLink_def
      missingLink_def extractMainTextFromHtml_def sample_plain_text)
     (simp_all add: ascii_def)

lemma sample_text: "trim noteText = ascii ''tour notes''"
  by (simp add: noteText_def string_defs)

lemmas sample_sources = sample_documents sample_links sample_text textAdmitted_def attempted_def
  successes_def failures_def sourceOutcomes_def succeeded_def failed_def

text \<open>
  C2. The status of the result is the stated function of the outcomes. No source
  attempted: status empty, no entries, no errors. A source attempted and no entry: status
  failed and no entries. Every attempted source gave an entry: status success and no
  errors. Successes and failures: status partial, the errors are the messages of the
  failed sources, one each, and every source that succeeded has its entry (a failure
  does not stop the sources after it).
\<close>

theorem ingestReferences_status:
  "(\<not> attempted t links docs \<longrightarrow>
      ingestReferences w t links docs = \<lparr>status = StatusEmpty, references = [], errors = []\<rparr>)
   \<and> (attempted t links docs \<and> successes w t links docs = 0 \<longrightarrow>
        status (ingestReferences w t links docs) = StatusFailed
        \<and> references (ingestReferences w t links docs) = [])
   \<and> (attempted t links docs \<and> failures w links docs = 0 \<longrightarrow>
        status (ingestReferences w t links docs) = StatusSuccess
        \<and> errors (ingestReferences w t links docs) = [])
   \<and> (0 < successes w t links docs \<and> 0 < failures w links docs \<longrightarrow>
        status (ingestReferences w t links docs) = StatusPartial
        \<and> errors (ingestReferences w t links docs) = failureMessages w links docs
        \<and> length (errors (ingestReferences w t links docs)) = failures w links docs
        \<and> length (references (ingestReferences w t links docs)) = successes w t links docs)"
proof -
  define st where "st = ingestLoops w t links docs"
  have h: "hadInput st = attempted t links docs" by (simp add: st_def ingestLoops_eq)
  have e: "partialErrors st = failureMessages w links docs" by (simp add: st_def ingestLoops_eq)
  have r: "length (refs st) = successes w t links docs" by (simp add: st_def length_refs)
  have f: "length (partialErrors st) = failures w links docs"
    by (simp add: e length_failureMessages)
  have a: "attempted t links docs \<longleftrightarrow> 0 < successes w t links docs + failures w links docs"
    by (rule attempted_counts)
  have d: "ingestReferences w t links docs =
     (if \<not> hadInput st then \<lparr>status = StatusEmpty, references = [], errors = []\<rparr>
      else if refs st = []
      then \<lparr>status = StatusFailed, references = [],
            errors = (if length (partialErrors st) > 0 then partialErrors st
                      else [MSG_NOTHING_USABLE])\<rparr>
      else \<lparr>status = (if length (partialErrors st) > 0 then StatusPartial else StatusSuccess),
            references = refs st, errors = partialErrors st\<rparr>)"
    by (simp add: ingestReferences_def st_def Let_def)
  have z: "refs st = [] \<longleftrightarrow> successes w t links docs = 0" using r by auto
  have z2: "partialErrors st = [] \<longleftrightarrow> failures w links docs = 0" using f by auto
  show ?thesis
    unfolding d using h e r f a z z2 by auto
qed

theorem ingestReferences_status_witness:
  "\<not> attempted None [] []
   \<and> ingestReferences demoWorld None [] [] = \<lparr>status = StatusEmpty, references = [], errors = []\<rparr>
   \<and> attempted None [missingLink] [emptyDocument]
   \<and> successes demoWorld None [missingLink] [emptyDocument] = 0
   \<and> status (ingestReferences demoWorld None [missingLink] [emptyDocument]) = StatusFailed
   \<and> references (ingestReferences demoWorld None [missingLink] [emptyDocument]) = []
   \<and> attempted (Some noteText) [reportLink] [helloDocument]
   \<and> failures demoWorld [reportLink] [helloDocument] = 0
   \<and> status (ingestReferences demoWorld (Some noteText) [reportLink] [helloDocument]) = StatusSuccess
   \<and> errors (ingestReferences demoWorld (Some noteText) [reportLink] [helloDocument]) = []
   \<and> successes demoWorld (Some noteText) [missingLink, reportLink] [helloDocument, emptyDocument] = 3
   \<and> failures demoWorld [missingLink, reportLink] [helloDocument, emptyDocument] = 2
   \<and> status (ingestReferences demoWorld (Some noteText) [missingLink, reportLink]
        [helloDocument, emptyDocument]) = StatusPartial
   \<and> length (errors (ingestReferences demoWorld (Some noteText) [missingLink, reportLink]
        [helloDocument, emptyDocument])) = 2
   \<and> length (references (ingestReferences demoWorld (Some noteText) [missingLink, reportLink]
        [helloDocument, emptyDocument])) = 3"
proof -
  have a: "\<not> attempted None [] []"
    by (simp add: sample_sources)
  have b: "attempted None [missingLink] [emptyDocument]"
    "successes demoWorld None [missingLink] [emptyDocument] = 0"
    by (simp_all add: sample_sources)
  have c: "attempted (Some noteText) [reportLink] [helloDocument]"
    "failures demoWorld [reportLink] [helloDocument] = 0"
    by (simp_all add: sample_sources)
  have d: "successes demoWorld (Some noteText) [missingLink, reportLink] [helloDocument, emptyDocument] = 3"
    "failures demoWorld [missingLink, reportLink] [helloDocument, emptyDocument] = 2"
    by (simp_all add: sample_sources)
  note thm1 = ingestReferences_status [of None "[]" "[]" demoWorld]
  note thm2 = ingestReferences_status [of None "[missingLink]" "[emptyDocument]" demoWorld]
  note thm3 = ingestReferences_status [of "Some noteText" "[reportLink]" "[helloDocument]" demoWorld]
  note thm4 = ingestReferences_status [of "Some noteText" "[missingLink, reportLink]"
        "[helloDocument, emptyDocument]" demoWorld]
  have r1: "ingestReferences demoWorld None [] []
      = \<lparr>status = StatusEmpty, references = [], errors = []\<rparr>"
    using thm1 a by blast
  have r2: "status (ingestReferences demoWorld None [missingLink] [emptyDocument]) = StatusFailed"
    "references (ingestReferences demoWorld None [missingLink] [emptyDocument]) = []"
    using thm2 b by blast+
  have r3: "status (ingestReferences demoWorld (Some noteText) [reportLink] [helloDocument])
      = StatusSuccess"
    "errors (ingestReferences demoWorld (Some noteText) [reportLink] [helloDocument]) = []"
    using thm3 c by blast+
  have p: "0 < successes demoWorld (Some noteText) [missingLink, reportLink]
        [helloDocument, emptyDocument]
      \<and> 0 < failures demoWorld [missingLink, reportLink] [helloDocument, emptyDocument]"
    by (simp add: d)
  have r4: "status (ingestReferences demoWorld (Some noteText) [missingLink, reportLink]
        [helloDocument, emptyDocument]) = StatusPartial"
    "length (errors (ingestReferences demoWorld (Some noteText) [missingLink, reportLink]
        [helloDocument, emptyDocument]))
      = failures demoWorld [missingLink, reportLink] [helloDocument, emptyDocument]"
    "length (references (ingestReferences demoWorld (Some noteText) [missingLink, reportLink]
        [helloDocument, emptyDocument]))
      = successes demoWorld (Some noteText) [missingLink, reportLink]
          [helloDocument, emptyDocument]"
    using thm4 p by blast+
  show ?thesis
    unfolding r1 r2 r3 r4 d using a b c by simp
qed

subsection \<open>No empty entry\<close>

lemma truncateText_nonempty: "v \<noteq> [] \<Longrightarrow> truncateText v limit \<noteq> []"
  by (simp add: truncateText_def)

lemma extractTextFromDocument_nonempty: "extractTextFromDocument w doc = Inr t \<Longrightarrow> t \<noteq> []"
  by (auto simp: extractTextFromDocument_def Let_def split: if_splits option.splits)

lemma fetchLinkContent_nonempty: "fetchLinkContent w url = Inr t \<Longrightarrow> t \<noteq> []"
  by (auto simp: fetchLinkContent_def Let_def split: if_splits option.splits FetchResult.splits)

lemma references_subset:
  "set (references (ingestReferences w t links docs)) \<subseteq> set (refs (ingestLoops w t links docs))"
  by (simp add: ingestReferences_def Let_def)

text \<open>
  C9. Every entry of a result of the aggregator has a non-empty content: the text is
  admitted only when something is left after trimming, a text returned by the document
  extractor or by the link extractor is not empty, and truncation to the budget of 6000
  characters keeps a non-empty text non-empty.
\<close>

theorem reference_content_nonempty:
  "(\<forall>e \<in> set (references (ingestReferences w t links docs)). content e \<noteq> [])
   \<and> (textEntry t \<noteq> [] \<longrightarrow> textAdmitted t)
   \<and> (\<forall>txt. extractTextFromDocument w doc = Inr txt \<longrightarrow> txt \<noteq> [])
   \<and> (\<forall>txt. fetchLinkContent w url = Inr txt \<longrightarrow> txt \<noteq> [])
   \<and> (v \<noteq> [] \<longrightarrow> truncateText v MAX_REFERENCE_CHARS \<noteq> [])"
proof -
  have "content e \<noteq> []" if "e \<in> set (refs (ingestLoops w t links docs))" for e
    using that
    by (auto simp: ingestLoops_eq textEntry_def documentEntry_def linkEntry_def
        truncateText_nonempty extractTextFromDocument_nonempty fetchLinkContent_nonempty
        split: option.splits if_splits sum.splits)
  moreover have "textEntry t \<noteq> [] \<longrightarrow> textAdmitted t"
    by (simp add: textEntry_def textAdmitted_def split: option.splits)
  ultimately show ?thesis
    using references_subset[of w t links docs]
    by (auto simp: truncateText_nonempty extractTextFromDocument_nonempty fetchLinkContent_nonempty)
qed

theorem reference_content_nonempty_witness:
  "references (ingestReferences demoWorld (Some noteText) [reportLink] [helloDocument])
     = [\<lparr>ref_type = TextRef, content = ascii ''tour notes'', source = ascii ''user_input''\<rparr>,
        \<lparr>ref_type = FileRef, content = ascii ''hello world'', source = ascii ''hello.txt''\<rparr>,
        \<lparr>ref_type = UrlRef, content = ascii ''Tour dates'',
          source = ascii ''https://example.com/report''\<rparr>]
   \<and> ascii ''tour notes'' \<noteq> [] \<and> ascii ''hello world'' \<noteq> [] \<and> ascii ''Tour dates'' \<noteq> []
   \<and> textEntry (Some noteText) \<noteq> [] \<and> textAdmitted (Some noteText)
   \<and> extractTextFromDocument demoWorld helloDocument = Inr (ascii ''hello world'')
   \<and> fetchLinkContent demoWorld reportLink = Inr (ascii ''Tour dates'')
   \<and> truncateText (ascii ''hello world'') MAX_REFERENCE_CHARS \<noteq> []"
proof -
  have t: "truncateText (ascii ''tour notes'') MAX_REFERENCE_CHARS = ascii ''tour notes''"
    "truncateText (ascii ''hello world'') MAX_REFERENCE_CHARS = ascii ''hello world''"
    "truncateText (ascii ''Tour dates'') MAX_REFERENCE_CHARS = ascii ''Tour dates''"
    by (simp_all add: truncateText_def MAX_REFERENCE_CHARS_def ascii_def)
  have r: "references (ingestReferences demoWorld (Some noteText) [reportLink] [helloDocument])
     = [\<lparr>ref_type = TextRef, content = ascii ''tour notes'', source = ascii ''user_input''\<rparr>,
        \<lparr>ref_type = FileRef, content = ascii ''hello world'', source = ascii ''hello.txt''\<rparr>,
        \<lparr>ref_type = UrlRef, content = ascii ''Tour dates'',
          source = ascii ''https://example.com/report''\<rparr>]"
    by (simp add: ingestReferences_def ingestLoops_eq textEntry_def documentEntry_def
        linkEntry_def sample_sources t Let_def)
       (simp add: helloDocument_def reportLink_def)
  have n: "ascii ''hello world'' \<noteq> []" by (simp add: ascii_def)
  have e: "textEntry (Some noteText) \<noteq> []" by (simp add: textEntry_def sample_text ascii_def)
  show ?thesis
    using reference_content_nonempty [of demoWorld "Some noteText" "[reportLink]"
        "[helloDocument]" helloDocument reportLink "ascii ''hello world''"]
      r n e
    by (simp add: sample_documents sample_links)
qed

section \<open>Properties of the validator\<close>

lemma nonNullObject_iff: "nonNullObject v \<longleftrightarrow> truthy v \<and> typeofObject v"
  by (cases v) (simp_all add: nonNullObject_def)

lemma phasesPayload_facts:
  "nonNullObject (phasesPayload n)"
  "phasesInRange (phasesPayload n) \<longleftrightarrow> 5 \<le> n \<and> n \<le> 10"
  by (simp_all add: nonNullObject_def phasesInRange_def phasesPayload_def)

lemma digest_payload_facts:
  "nonNullObject paddedDigestPayload" "phasesInRange paddedDigestPayload"
  "digestLength paddedDigestPayload = Some 21"
  "digestTrimmedLength paddedDigestPayload = Some 11"
  "nonNullObject digestPayload" "phasesInRange digestPayload"
  "digestTrimmedLength digestPayload = Some 23"
  by (simp_all add: nonNullObject_def phasesInRange_def digestLength_def digestTrimmedLength_def
      paddedDigestPayload_def digestPayload_def string_defs)

text \<open>
  C5, as the claim states it, fails: with a digest required, a payload that is a non-null
  object, has five phases and a \<open>source_digest\<close> string of 21 characters is rejected,
  because only 11 characters are left of the digest after trimming.
\<close>

theorem padded_digest_counterexample:
  "validateGeneratedPayload paddedDigestPayload True = Inl NoSourceDigest
   \<and> nonNullObject paddedDigestPayload \<and> phasesInRange paddedDigestPayload
   \<and> digestLength paddedDigestPayload = Some 21 \<and> atLeast20 (digestLength paddedDigestPayload)"
  by (simp add: digest_payload_facts atLeast20_def)
     (simp add: validateGeneratedPayload_def paddedDigestPayload_def string_defs)

text \<open>
  C5, amended. The validator throws if and only if the payload is not a non-null object,
  or its \<open>phases\<close> field is not an array of 5 to 10 elements, or a digest is required
  (ingestion produced an entry) and \<open>source_digest\<close> is not a string of which at least 20
  characters are left after trimming white space from both ends.
\<close>

theorem validateGeneratedPayload_throws_iff:
  "throws (validateGeneratedPayload payload requireSourceDigest) \<longleftrightarrow>
     \<not> nonNullObject payload \<or> \<not> phasesInRange payload
     \<or> (requireSourceDigest \<and> \<not> atLeast20 (digestTrimmedLength payload))"
  by (auto simp: validateGeneratedPayload_def nonNullObject_iff phasesInRange_def
      digestTrimmedLength_def atLeast20_def throws_def
      split: option.splits json.splits if_splits)

theorem validateGeneratedPayload_throws_iff_witness:
  "throws (validateGeneratedPayload (phasesPayload 4) False)
   \<and> \<not> throws (validateGeneratedPayload (phasesPayload 5) False)
   \<and> \<not> throws (validateGeneratedPayload (phasesPayload 10) False)
   \<and> throws (validateGeneratedPayload (phasesPayload 11) False)
   \<and> throws (validateGeneratedPayload JNull False)
   \<and> throws (validateGeneratedPayload (phasesPayload 5) True)
   \<and> throws (validateGeneratedPayload paddedDigestPayload True)
   \<and> \<not> throws (validateGeneratedPayload digestPayload True)"
  using validateGeneratedPayload_throws_iff [of "phasesPayload 4" False]
    validateGeneratedPayload_throws_iff [of "phasesPayload 5" False]
    validateGeneratedPayload_throws_iff [of "phasesPayload 10" False]
    validateGeneratedPayload_throws_iff [of "phasesPayload 11" False]
    validateGeneratedPayload_throws_iff [of JNull False]
    validateGeneratedPayload_throws_iff [of "phasesPayload 5" True]
    validateGeneratedPayload_throws_iff [of paddedDigestPayload True]
    validateGeneratedPayload_throws_iff [of digestPayload True]
  by (simp add: phasesPayload_facts digest_payload_facts atLeast20_def)
     (simp add: nonNullObject_def digestTrimmedLength_def phasesPayload_def ascii_def)

section \<open>Properties of the structured-output extractor\<close>








section \<open>Properties of the generation orchestrator\<close>

lemma attemptLoop_end: "2 \<le> n \<Longrightarrow> attemptLoop w b n p s = (Finished p, s)"
  by (subst attemptLoop.simps) simp

lemma attemptLoop_second:
  "attemptLoop w b (Suc 0) p s =
     (case callGenerator w (Suc 0) (b @ JSON_HINT) of
        GenThrows \<Rightarrow> (Threw, s @ [b @ JSON_HINT])
      | GenNotOk details \<Rightarrow> (Returned (UpstreamUnavailable details), s @ [b @ JSON_HINT])
      | GenOk rawContent \<Rightarrow>
          (case rawContent of
             None \<Rightarrow> (Finished p, s @ [b @ JSON_HINT])
           | Some raw \<Rightarrow>
               if raw = [] then (Finished p, s @ [b @ JSON_HINT])
               else (Finished (extractJsonPayload w raw), s @ [b @ JSON_HINT])))"
  by (subst attemptLoop.simps)
     (simp add: Let_def attemptLoop_end split: GenResponse.splits option.splits)

lemma attemptLoop_first:
  "attemptLoop w b 0 p s =
     (case callGenerator w 0 b of
        GenThrows \<Rightarrow> (Threw, s @ [b])
      | GenNotOk details \<Rightarrow> (Returned (UpstreamUnavailable details), s @ [b])
      | GenOk rawContent \<Rightarrow>
          (case rawContent of
             None \<Rightarrow> attemptLoop w b (Suc 0) p (s @ [b])
           | Some raw \<Rightarrow>
               if raw = [] then attemptLoop w b (Suc 0) p (s @ [b])
               else if truthy (extractJsonPayload w raw)
                    then (Finished (extractJsonPayload w raw), s @ [b])
                    else attemptLoop w b (Suc 0) (extractJsonPayload w raw) (s @ [b])))"
  by (subst attemptLoop.simps)
     (simp add: Let_def split: GenResponse.splits option.splits)

lemma sent_attemptLoop_second:
  "snd (attemptLoop w b (Suc 0) p s) = s @ [b @ JSON_HINT]"
  by (simp add: attemptLoop_second split: GenResponse.splits option.splits)

lemma sent_attemptLoop_first:
  "snd (attemptLoop w b 0 p []) = [b] \<or> snd (attemptLoop w b 0 p []) = [b, b @ JSON_HINT]"
  by (simp add: attemptLoop_first sent_attemptLoop_second split: GenResponse.splits option.splits)

lemma prompts_POST_generate:
  "prompts (snd (POST_generate w b r)) = snd (attemptLoop w b 0 JNull [])"
  by (simp add: POST_generate_def split: prod.splits LoopExit.splits sum.splits)

lemma unparseable_without_validation:
  "fst (POST_generate w b r) = Unparseable \<Longrightarrow> validations (snd (POST_generate w b r)) = 0"
  by (auto simp: POST_generate_def split: prod.splits LoopExit.splits sum.splits if_splits)

lemma attempts_exhausted:
  assumes "nothingTruthy w (callGenerator w 0 b)"
    "nothingTruthy w (callGenerator w 1 (b @ JSON_HINT))"
  shows "\<exists>p. \<not> truthy p \<and> attemptLoop w b 0 JNull [] = (Finished p, [b, b @ JSON_HINT])"
  using assms
  by (auto simp: nothingTruthy_def attemptLoop_first attemptLoop_second
      split: GenResponse.splits option.splits)

lemma first_attempt_value:
  assumes "attemptValue w (callGenerator w 0 b) = Some v"
  shows "truthy v \<and> attemptLoop w b 0 JNull [] = (Finished v, [b])"
  using assms
  by (auto simp: attemptValue_def attemptLoop_first
      split: GenResponse.splits option.splits if_splits)

lemma second_attempt_value:
  assumes "nothingTruthy w (callGenerator w 0 b)"
    "attemptValue w (callGenerator w 1 (b @ JSON_HINT)) = Some v"
  shows "truthy v \<and> attemptLoop w b 0 JNull [] = (Finished v, [b, b @ JSON_HINT])"
  using assms
  by (auto simp: nothingTruthy_def attemptValue_def attemptLoop_first attemptLoop_second
      split: GenResponse.splits option.splits if_splits)

lemma POST_generate_Finished:
  "attemptLoop w b 0 JNull [] = (Finished v, sent) \<Longrightarrow> truthy v \<Longrightarrow>
   POST_generate w b r = (afterLoop v r, \<lparr>prompts = sent, validations = 1\<rparr>)"
  by (simp add: POST_generate_def afterLoop_def split: sum.splits)

lemma afterLoop_not_object: "\<not> nonNullObject v \<Longrightarrow> afterLoop v r = ValidationFailed NotAStructure"
  by (simp add: afterLoop_def validateGeneratedPayload_def nonNullObject_iff)

lemma sample_extractions:
  "extractJsonPayload demoWorld (ascii ''0'') = JNull"
  "extractJsonPayload demoWorld (ascii ''42'') = JNum 42"
  "extractJsonPayload demoWorld (ascii ''{}'') = JObj []"
  by (simp_all add: extractJsonPayload_def attemptParse_def normalizeJsonText_def
      demoWorld_def demoParse_def fenceAt_def indexOf_def lastIndexOf_def slice_def
      startsWith_def ciEq_def string_defs Let_def)

lemma sample_world_parts:
  "jsonParse numberWorld = jsonParse demoWorld" "jsonRepair numberWorld = jsonRepair demoWorld"
  "callGenerator numberWorld = numberGenerator"
  "jsonParse retryWorld = jsonParse demoWorld" "jsonRepair retryWorld = jsonRepair demoWorld"
  "callGenerator retryWorld = retryGenerator"
  "callGenerator demoWorld = demoGenerator"
  by (simp_all add: numberWorld_def retryWorld_def demoWorld_def)

lemma extractJsonPayload_world:
  assumes "jsonParse w = jsonParse w'" "jsonRepair w = jsonRepair w'"
  shows "extractJsonPayload w c = extractJsonPayload w' c"
proof -
  have "attemptParse w t = attemptParse w' t" for t
    unfolding attemptParse_def assms by simp
  then have e: "attemptParse w = attemptParse w'" by (rule ext)
  show ?thesis unfolding extractJsonPayload_def e by simp
qed

lemma sample_attempts:
  "nothingTruthy demoWorld (callGenerator demoWorld 0 basePrompt)"
  "nothingTruthy demoWorld (callGenerator demoWorld 1 (basePrompt @ JSON_HINT))"
  "attemptValue numberWorld (callGenerator numberWorld 0 basePrompt) = Some (JNum 42)"
  "nothingTruthy retryWorld (callGenerator retryWorld 0 basePrompt)"
  "attemptValue retryWorld (callGenerator retryWorld 1 (basePrompt @ JSON_HINT)) = Some (JObj [])"
  by (simp_all add: nothingTruthy_def attemptValue_def sample_world_parts demoGenerator_def
      numberGenerator_def retryGenerator_def sample_extractions
      extractJsonPayload_world[of numberWorld demoWorld]
      extractJsonPayload_world[of retryWorld demoWorld])

text \<open>
  C6, as the claim states it, fails: when the generator answers the first attempt with
  the text \<open>42\<close>, the attempt yields the number 42, which is no structured object, and
  yet the loop ends there. The request makes one attempt, runs the validator, and fails
  with the validator's error for a value that is no JSON structure, not with the error
  for unparseable output.
\<close>

theorem number_output_counterexample:
  "callGenerator numberWorld 0 basePrompt = GenOk (Some (ascii ''42''))
   \<and> extractJsonPayload numberWorld (ascii ''42'') = JNum 42
   \<and> \<not> nonNullObject (JNum 42)
   \<and> POST_generate numberWorld basePrompt False
       = (ValidationFailed NotAStructure, \<lparr>prompts = [basePrompt], validations = 1\<rparr>)"
proof -
  have g: "callGenerator numberWorld 0 basePrompt = GenOk (Some (ascii ''42''))"
    by (simp add: sample_world_parts numberGenerator_def)
  have x: "extractJsonPayload numberWorld (ascii ''42'') = JNum 42"
    by (simp add: extractJsonPayload_world[of numberWorld demoWorld] sample_world_parts
        sample_extractions)
  have l: "attemptLoop numberWorld basePrompt 0 JNull [] = (Finished (JNum 42), [basePrompt])"
    by (simp add: attemptLoop_first g x)
  have p: "POST_generate numberWorld basePrompt False
       = (ValidationFailed NotAStructure, \<lparr>prompts = [basePrompt], validations = 1\<rparr>)"
    by (simp add: POST_generate_def l validateGeneratedPayload_def)
  show ?thesis using g x p by (simp add: nonNullObject_def)
qed

text \<open>
  C6, amended. One request sends the generator one or two user prompts, never more: the
  first is the prompt of the template, the second is the same prompt with the
  instruction appended that demands the JSON structure only. When neither attempt yields
  a value that JavaScript takes for true (the generator answers, and its content is
  missing, empty, or gives the extractor \<open>null\<close>, \<open>false\<close>, 0 or the empty string), the
  request ends with the error for unparseable output, after exactly these two prompts
  and without a run of the validator; whenever a request ends with that error, the
  validator has not run. A value that JavaScript takes for true ends the loop at its
  attempt, object or not: the validator runs once on it, and a value that is no
  structured object (a number, \<open>true\<close>, a string) ends the request with the validator's
  error for a value that is no JSON structure.
\<close>

theorem POST_generate_two_attempts:
  "(prompts (snd (POST_generate w b r)) = [b]
      \<or> prompts (snd (POST_generate w b r)) = [b, b @ JSON_HINT])
   \<and> length (prompts (snd (POST_generate w b r))) \<le> 2
   \<and> (nothingTruthy w (callGenerator w 0 b)
        \<and> nothingTruthy w (callGenerator w 1 (b @ JSON_HINT)) \<longrightarrow>
        POST_generate w b r = (Unparseable, \<lparr>prompts = [b, b @ JSON_HINT], validations = 0\<rparr>))
   \<and> (fst (POST_generate w b r) = Unparseable \<longrightarrow> validations (snd (POST_generate w b r)) = 0)
   \<and> (attemptValue w (callGenerator w 0 b) = Some v \<longrightarrow>
        POST_generate w b r = (afterLoop v r, \<lparr>prompts = [b], validations = 1\<rparr>))
   \<and> (nothingTruthy w (callGenerator w 0 b)
        \<and> attemptValue w (callGenerator w 1 (b @ JSON_HINT)) = Some v \<longrightarrow>
        POST_generate w b r = (afterLoop v r, \<lparr>prompts = [b, b @ JSON_HINT], validations = 1\<rparr>))
   \<and> (\<not> nonNullObject v \<longrightarrow> afterLoop v r = ValidationFailed NotAStructure)"
proof -
  have a: "prompts (snd (POST_generate w b r)) = [b]
      \<or> prompts (snd (POST_generate w b r)) = [b, b @ JSON_HINT]"
    unfolding prompts_POST_generate by (rule sent_attemptLoop_first)
  then have l: "length (prompts (snd (POST_generate w b r))) \<le> 2" by auto
  have e: "POST_generate w b r = (Unparseable, \<lparr>prompts = [b, b @ JSON_HINT], validations = 0\<rparr>)"
    if h: "nothingTruthy w (callGenerator w 0 b)"
      "nothingTruthy w (callGenerator w 1 (b @ JSON_HINT))"
  proof -
    obtain p where "\<not> truthy p" "attemptLoop w b 0 JNull [] = (Finished p, [b, b @ JSON_HINT])"
      using attempts_exhausted[OF h] by blast
    then show ?thesis by (simp add: POST_generate_def)
  qed
  have f: "POST_generate w b r = (afterLoop v r, \<lparr>prompts = [b], validations = 1\<rparr>)"
    if h: "attemptValue w (callGenerator w 0 b) = Some v"
    using first_attempt_value[OF h] POST_generate_Finished by blast
  have s: "POST_generate w b r = (afterLoop v r, \<lparr>prompts = [b, b @ JSON_HINT], validations = 1\<rparr>)"
    if h: "nothingTruthy w (callGenerator w 0 b)"
      "attemptValue w (callGenerator w 1 (b @ JSON_HINT)) = Some v"
    using second_attempt_value[OF h] POST_generate_Finished by blast
  show ?thesis
    using a l e f s unparseable_without_validation[of w b r] afterLoop_not_object[of v r]
    by blast
qed

theorem POST_generate_two_attempts_witness:
  "nothingTruthy demoWorld (callGenerator demoWorld 0 basePrompt)
   \<and> nothingTruthy demoWorld (callGenerator demoWorld 1 (basePrompt @ JSON_HINT))
   \<and> POST_generate demoWorld basePrompt False
       = (Unparseable, \<lparr>prompts = [basePrompt, basePrompt @ JSON_HINT], validations = 0\<rparr>)
   \<and> attemptValue numberWorld (callGenerator numberWorld 0 basePrompt) = Some (JNum 42)
   \<and> \<not> nonNullObject (JNum 42)
   \<and> POST_generate numberWorld basePrompt False
       = (ValidationFailed NotAStructure, \<lparr>prompts = [basePrompt], validations = 1\<rparr>)
   \<and> nothingTruthy retryWorld (callGenerator retryWorld 0 basePrompt)
   \<and> attemptValue retryWorld (callGenerator retryWorld 1 (basePrompt @ JSON_HINT))
       = Some (JObj [])
   \<and> POST_generate retryWorld basePrompt False
       = (ValidationFailed NoPhases,
          \<lparr>prompts = [basePrompt, basePrompt @ JSON_HINT], validations = 1\<rparr>)"
proof -
  note t1 = POST_generate_two_attempts [of demoWorld basePrompt False "JNum 42"]
  note t2 = POST_generate_two_attempts [of numberWorld basePrompt False "JNum 42"]
  note t3 = POST_generate_two_attempts [of retryWorld basePrompt False "JObj []"]
  have n: "\<not> nonNullObject (JNum 42)" by (simp add: nonNullObject_def)
  have c1: "POST_generate demoWorld basePrompt False
       = (Unparseable, \<lparr>prompts = [basePrompt, basePrompt @ JSON_HINT], validations = 0\<rparr>)"
    using t1 sample_attempts(1,2) by blast
  have c2: "POST_generate numberWorld basePrompt False
       = (afterLoop (JNum 42) False, \<lparr>prompts = [basePrompt], validations = 1\<rparr>)"
    "afterLoop (JNum 42) False = ValidationFailed NotAStructure"
    using t2 sample_attempts(3) n by blast+
  have c3: "POST_generate retryWorld basePrompt False
       = (afterLoop (JObj []) False,
          \<lparr>prompts = [basePrompt, basePrompt @ JSON_HINT], validations = 1\<rparr>)"
    using t3 sample_attempts(4,5) by blast
  have v: "afterLoop (JObj []) False = ValidationFailed NoPhases"
    by (simp add: afterLoop_def validateGeneratedPayload_def)
  show ?thesis
    unfolding c1 c2 c3 v using sample_attempts n by simp
qed

end
